theory Spec2Isabelle
  imports Main "HOL-Library.Word"
begin

section \<open>Session-manager library wrapper (AwsGameKitSessionManagerWrapper.h)\<close>

text \<open>
  The preprocessor symbols \<open>PLATFORM_WINDOWS\<close>, \<open>PLATFORM_MAC\<close>, \<open>PLATFORM_IOS\<close> and
  \<open>PLATFORM_ANDROID\<close> are set by the engine's build system: exactly one platform symbol
  is 1 in a build. The build target is a datatype and each symbol a predicate on it.
\<close>

datatype platform = Windows | Mac | IOS | Android | Linux | OtherPlatform

definition PLATFORM_WINDOWS :: "platform \<Rightarrow> bool" where
  "PLATFORM_WINDOWS p = (p = Windows)"

definition PLATFORM_MAC :: "platform \<Rightarrow> bool" where
  "PLATFORM_MAC p = (p = Mac)"

text \<open>\<open>getLibraryFilename\<close>, lines 52 to 61: an \<open>#if\<close> / \<open>#elif\<close> / \<open>#else\<close> chain.\<close>

definition getLibraryFilename :: "platform \<Rightarrow> string" where
  "getLibraryFilename p =
     (if PLATFORM_WINDOWS p then ''aws-gamekit-authentication''
      else if PLATFORM_MAC p then ''libaws-gamekit-authentication''
      else '''')"

text \<open>
  The C types that the declarations of the header use. \<open>GAMEKIT_SESSION_MANAGER_INSTANCE_HANDLE\<close>
  is the \<open>void*\<close> of line 31; \<open>FuncLogCallback\<close>, \<open>FeatureType\<close> and \<open>GameKit::TokenType\<close> come
  from the included headers.
\<close>

datatype ctype =
    void_t
  | bool_t
  | const_char_ptr_t
  | const_FString_ref_t
  | GAMEKIT_SESSION_MANAGER_INSTANCE_HANDLE
  | FuncLogCallback
  | FeatureType
  | TokenType

record signature =
  returns :: ctype
  takes :: "ctype list"

text \<open>
  Modelled from the spec: the macro \<open>DEFINE_FUNC_HANDLE\<close> comes from
  \<open>AwsGameKitLibraryWrapper.h\<close>, which is not among the sources. The spec speaks of "typed
  function pointers", consumed "by name, with a fixed C calling convention"; the header
  calls the library's interface "a C-level interface (not a C++ interface)" (line 29). So a
  declaration \<open>DEFINE_FUNC_HANDLE(ret, name, (params))\<close> is a handle with the name of the
  native function and its signature, and a resolved handle is a function pointer of that
  signature, called with the C calling convention.
\<close>

record func_handle =
  handle_name :: string
  handle_signature :: signature

definition DEFINE_FUNC_HANDLE :: "ctype \<Rightarrow> string \<Rightarrow> ctype list \<Rightarrow> func_handle" where
  "DEFINE_FUNC_HANDLE ret name params =
     \<lparr>handle_name = name, handle_signature = \<lparr>returns = ret, takes = params\<rparr>\<rparr>"

datatype calling_convention = C_calling_convention | other_calling_convention

type_synonym fptr = nat

record typed_function_pointer =
  fp_address :: fptr
  fp_signature :: signature
  fp_convention :: calling_convention

text \<open>The six declarations of lines 44 to 49, in the order of the header.\<close>

definition decl_InstanceCreate :: func_handle where
  "decl_InstanceCreate =
     DEFINE_FUNC_HANDLE GAMEKIT_SESSION_MANAGER_INSTANCE_HANDLE
       ''GameKitSessionManagerInstanceCreate'' [const_char_ptr_t, FuncLogCallback]"

definition decl_AreSettingsLoaded :: func_handle where
  "decl_AreSettingsLoaded =
     DEFINE_FUNC_HANDLE bool_t ''GameKitSessionManagerAreSettingsLoaded''
       [GAMEKIT_SESSION_MANAGER_INSTANCE_HANDLE, FeatureType]"

definition decl_ReloadConfigFile :: func_handle where
  "decl_ReloadConfigFile =
     DEFINE_FUNC_HANDLE void_t ''GameKitSessionManagerReloadConfigFile''
       [GAMEKIT_SESSION_MANAGER_INSTANCE_HANDLE, const_char_ptr_t]"

definition decl_ReloadConfigContents :: func_handle where
  "decl_ReloadConfigContents =
     DEFINE_FUNC_HANDLE void_t ''GameKitSessionManagerReloadConfigContents''
       [GAMEKIT_SESSION_MANAGER_INSTANCE_HANDLE, const_char_ptr_t]"

definition decl_SetToken :: func_handle where
  "decl_SetToken =
     DEFINE_FUNC_HANDLE void_t ''GameKitSessionManagerSetToken''
       [GAMEKIT_SESSION_MANAGER_INSTANCE_HANDLE, TokenType, const_char_ptr_t]"

definition decl_InstanceRelease :: func_handle where
  "decl_InstanceRelease =
     DEFINE_FUNC_HANDLE void_t ''GameKitSessionManagerInstanceRelease''
       [GAMEKIT_SESSION_MANAGER_INSTANCE_HANDLE]"

definition func_handles :: "func_handle list" where
  "func_handles =
     [decl_InstanceCreate, decl_AreSettingsLoaded, decl_ReloadConfigFile,
      decl_ReloadConfigContents, decl_SetToken, decl_InstanceRelease]"

text \<open>The handles as members of the wrapper: a resolved function pointer, or nothing when
  the symbol was not found.\<close>

record AwsGameKitSessionManagerWrapper =
  GameKitSessionManagerInstanceCreate :: "typed_function_pointer option"
  GameKitSessionManagerAreSettingsLoaded :: "typed_function_pointer option"
  GameKitSessionManagerReloadConfigFile :: "typed_function_pointer option"
  GameKitSessionManagerReloadConfigContents :: "typed_function_pointer option"
  GameKitSessionManagerSetToken :: "typed_function_pointer option"
  GameKitSessionManagerInstanceRelease :: "typed_function_pointer option"

text \<open>
  The public methods the header declares, lines 79 to 146, with their signatures; the
  second \<open>ReloadConfig\<close> exists in editor builds only.
\<close>

definition public_methods :: "(string \<times> signature) list" where
  "public_methods =
     [(''GameKitSessionManagerInstanceCreate'',
         \<lparr>returns = GAMEKIT_SESSION_MANAGER_INSTANCE_HANDLE,
          takes = [const_char_ptr_t, FuncLogCallback]\<rparr>),
      (''GameKitSessionManagerInstanceRelease'',
         \<lparr>returns = void_t, takes = [GAMEKIT_SESSION_MANAGER_INSTANCE_HANDLE]\<rparr>),
      (''GameKitSessionManagerAreSettingsLoaded'',
         \<lparr>returns = bool_t, takes = [GAMEKIT_SESSION_MANAGER_INSTANCE_HANDLE, FeatureType]\<rparr>),
      (''GameKitSessionManagerReloadConfigFile'',
         \<lparr>returns = void_t, takes = [GAMEKIT_SESSION_MANAGER_INSTANCE_HANDLE, const_char_ptr_t]\<rparr>),
      (''GameKitSessionManagerReloadConfigContents'',
         \<lparr>returns = void_t, takes = [GAMEKIT_SESSION_MANAGER_INSTANCE_HANDLE, const_char_ptr_t]\<rparr>),
      (''ReloadConfig'',
         \<lparr>returns = void_t, takes = [GAMEKIT_SESSION_MANAGER_INSTANCE_HANDLE]\<rparr>),
      (''ReloadConfig'',
         \<lparr>returns = void_t,
          takes = [GAMEKIT_SESSION_MANAGER_INSTANCE_HANDLE, const_FString_ref_t]\<rparr>),
      (''GameKitSessionManagerSetToken'',
         \<lparr>returns = void_t,
          takes = [GAMEKIT_SESSION_MANAGER_INSTANCE_HANDLE, TokenType, const_char_ptr_t]\<rparr>)]"

text \<open>
  Modelled from the spec: \<open>importFunctions\<close> is declared at line 63 and its body is not among
  the sources. The spec says of the wrapper that it "resolves named entry points from a
  dynamically loaded shared object into typed function pointers": "look up named symbols
  in a loaded shared object and cast them to function-pointer types". A loaded library is
  its table of exported symbols; \<open>resolve\<close> looks the handle's name up and casts the address
  to the handle's type.
\<close>

definition resolve :: "(string \<rightharpoonup> fptr) \<Rightarrow> func_handle \<Rightarrow> typed_function_pointer option" where
  "resolve loadedDllHandle h =
     map_option
       (\<lambda>a. \<lparr>fp_address = a, fp_signature = handle_signature h,
             fp_convention = C_calling_convention\<rparr>)
       (loadedDllHandle (handle_name h))"

definition importFunctions :: "(string \<rightharpoonup> fptr) \<Rightarrow> AwsGameKitSessionManagerWrapper" where
  "importFunctions loadedDllHandle =
     \<lparr>GameKitSessionManagerInstanceCreate = resolve loadedDllHandle decl_InstanceCreate,
      GameKitSessionManagerAreSettingsLoaded = resolve loadedDllHandle decl_AreSettingsLoaded,
      GameKitSessionManagerReloadConfigFile = resolve loadedDllHandle decl_ReloadConfigFile,
      GameKitSessionManagerReloadConfigContents =
        resolve loadedDllHandle decl_ReloadConfigContents,
      GameKitSessionManagerSetToken = resolve loadedDllHandle decl_SetToken,
      GameKitSessionManagerInstanceRelease = resolve loadedDllHandle decl_InstanceRelease\<rparr>"

text \<open>
  The six entry points as the spec enumerates them: "create/destroy a session-manager
  instance, check per-feature settings-loaded state, reload configuration from a file path
  or from in-memory contents, and set a named token's value". The method of each follows
  the \<open>@brief\<close> comments of lines 69 to 146.
\<close>

datatype entry_point =
    create_instance
  | destroy_instance
  | check_settings_loaded
  | reload_configuration_from_file_path
  | reload_configuration_from_contents
  | set_token_value

definition spec_entry_points :: "entry_point list" where
  "spec_entry_points =
     [create_instance, destroy_instance, check_settings_loaded,
      reload_configuration_from_file_path, reload_configuration_from_contents, set_token_value]"

fun symbol :: "entry_point \<Rightarrow> string" where
  "symbol create_instance = ''GameKitSessionManagerInstanceCreate''"
| "symbol destroy_instance = ''GameKitSessionManagerInstanceRelease''"
| "symbol check_settings_loaded = ''GameKitSessionManagerAreSettingsLoaded''"
| "symbol reload_configuration_from_file_path = ''GameKitSessionManagerReloadConfigFile''"
| "symbol reload_configuration_from_contents = ''GameKitSessionManagerReloadConfigContents''"
| "symbol set_token_value = ''GameKitSessionManagerSetToken''"

fun handle :: "entry_point \<Rightarrow> AwsGameKitSessionManagerWrapper \<Rightarrow> typed_function_pointer option" where
  "handle create_instance = GameKitSessionManagerInstanceCreate"
| "handle destroy_instance = GameKitSessionManagerInstanceRelease"
| "handle check_settings_loaded = GameKitSessionManagerAreSettingsLoaded"
| "handle reload_configuration_from_file_path = GameKitSessionManagerReloadConfigFile"
| "handle reload_configuration_from_contents = GameKitSessionManagerReloadConfigContents"
| "handle set_token_value = GameKitSessionManagerSetToken"

text \<open>A library that exports the six symbols and one more, as a concrete instance.\<close>

definition example_library :: "string \<rightharpoonup> fptr" where
  "example_library =
     [''GameKitSessionManagerInstanceCreate'' \<mapsto> 1,
      ''GameKitSessionManagerAreSettingsLoaded'' \<mapsto> 2,
      ''GameKitSessionManagerReloadConfigFile'' \<mapsto> 3,
      ''GameKitSessionManagerReloadConfigContents'' \<mapsto> 4,
      ''GameKitSessionManagerSetToken'' \<mapsto> 5,
      ''GameKitSessionManagerInstanceRelease'' \<mapsto> 6,
      ''GameKitSessionManagerCopyAndReloadConfig'' \<mapsto> 7]"

section \<open>Threaded-action bridge (AwsGameKitBlueprintCommon.h)\<close>

subsection \<open>Data\<close>

datatype EAwsGameKitSuccessOrFailureExecutionPin = OnSuccess | OnFailure

text \<open>
  Modelled from the spec: \<open>FAwsGameKitOperationResult\<close> is declared in
  \<open>Models/AwsGameKitCommonModels.h\<close>, which is not among the sources. The spec calls it
  "an operation-result value carrying a status code"; the code reads its field
  \<open>Status\<close> only. The type of the status code is left open.
\<close>

record 'st FAwsGameKitOperationResult =
  Status :: 'st

text \<open>\<open>TAwsGameKitInternalActionState\<close>, lines 26 to 32. A \<open>TQueue\<close> is the list of its
  elements, oldest first; the \<open>TOptional\<close> around it is an \<open>option\<close>.\<close>

record ('res, 'st) TAwsGameKitInternalActionState =
  Err :: "'st FAwsGameKitOperationResult"
  Results :: 'res
  PartialResultsQueue :: "'res list option"

text \<open>
  What the header takes from its includes and from the build, as parameters:
  \<open>DO_CHECK\<close> (the engine's \<open>check(e)\<close> aborts on a false \<open>e\<close> when \<open>DO_CHECK\<close> is set and
  is compiled out otherwise), the constant \<open>GameKit::GAMEKIT_SUCCESS\<close> of
  \<open>Core/AwsGameKitErrors.h\<close>, the default-constructed \<open>ResultType\<close> and
  \<open>FAwsGameKitOperationResult\<close>, and the value a \<open>ResultType\<close> is left with once
  \<open>MoveTemp\<close> has moved out of it.
\<close>

record ('res, 'st) build =
  DO_CHECK :: bool
  GAMEKIT_SUCCESS :: 'st
  ResultType_default :: 'res
  ResultType_moved_from :: "'res \<Rightarrow> 'res"
  OperationResult_default :: "'st FAwsGameKitOperationResult"

text \<open>A failed \<open>check\<close> is fatal; so is reading through an unset \<open>TOptional\<close>.\<close>

datatype error =
    check_PersistentFrame
  | check_NearbyStackAddress
  | check_ThreadedResult_IsValid
  | check_PartialResultsQueue
  | unset_PartialResultsQueue

text \<open>
  Addresses are integers. An output reference the action keeps is either an address or
  the function-local static \<open>StaticJunkVarForIgnoredOutput\<close> (one per variable type,
  in static storage, so no address of a caller's variable).
\<close>

type_synonym addr = int

datatype ref = Addr addr | StaticJunkVarForIgnoredOutput

text \<open>
  What lines 44 to 46 obtain from the engine for a \<open>FLatentActionInfo\<close>: the persistent
  frame of the calling graph (0 is the null pointer) and its size, an \<open>int32\<close>; and
  the address of the local \<open>stackobj\<close> of line 68.
\<close>

record callsite =
  PersistentFrame :: addr
  PersistentFrameSize :: "32 word"
  stackobj :: addr

record FLatentActionInfo =
  Linkage :: int
  UUID :: int
  ExecutionFunction :: string
  CallbackTarget :: nat

text \<open>
  The third template argument: \<open>FNoopStruct\<close> when no partial-results callback is
  registered, else a delegate, of which the code asks \<open>IsBound()\<close> and calls
  \<open>Execute\<close>. The action keeps its own copy and never rebinds it.
\<close>

datatype PartialResultsDelegateType = FNoopStruct | Delegate (IsBound: bool)

text \<open>\<open>TFuture<void>\<close>: default-constructed it has no state (\<open>IsValid()\<close> is false);
  \<open>IsReady()\<close> is true once the task of a valid future has returned.\<close>

datatype TFuture = NoFutureState | TaskRunning | TaskComplete

definition IsValid :: "TFuture \<Rightarrow> bool" where
  "IsValid f = (f \<noteq> NoFutureState)"

definition IsReady :: "TFuture \<Rightarrow> bool" where
  "IsReady f = (f = TaskComplete)"

record ('req, 'res, 'st) TAwsGameKitInternalThreadedAction =
  ThreadedState :: "('res, 'st) TAwsGameKitInternalActionState"
  LatentInfo :: FLatentActionInfo
  InRequest :: 'req
  OutSuccessOrFailure :: ref
  OutResults :: ref
  OutStatus :: ref
  PartialResultsDelegate :: PartialResultsDelegateType
  ThreadedResult :: TFuture

text \<open>
  The effects of a poll, in the order they happen: calls of the delegate, assignments
  through the three output references, and the call on the \<open>FLatentResponse\<close>.
\<close>

datatype ('req, 'res, 'st) effect =
    Execute 'req 'res bool
  | Assign_OutResults ref 'res
  | Assign_OutStatus ref "'st FAwsGameKitOperationResult"
  | Assign_OutSuccessOrFailure ref EAwsGameKitSuccessOrFailureExecutionPin
  | FinishAndTriggerIf bool string int nat

text \<open>
  The engine's \<open>FLatentResponse\<close> (\<open>LatentActions.h\<close>): \<open>FinishAndTriggerIf(c, f, l, t)\<close>
  sets \<open>bRemoveAction\<close> to \<open>c\<close> and, when \<open>c\<close> holds, adds the link to execute.
\<close>

record FLatentResponse =
  bRemoveAction :: bool
  LinksToExecute :: "(string \<times> int \<times> nat) list"

text \<open>
  The world a poll runs in: the action, whether the latent action manager still holds
  it, the memory behind the output references (one typed memory per output type) and
  the effects so far.
\<close>

record ('req, 'res, 'st) world =
  Action :: "('req, 'res, 'st) TAwsGameKitInternalThreadedAction"
  InLatentActionManager :: bool
  SuccessOrFailureMemory :: "ref \<Rightarrow> EAwsGameKitSuccessOrFailureExecutionPin"
  ResultsMemory :: "ref \<Rightarrow> 'res"
  StatusMemory :: "ref \<Rightarrow> 'st FAwsGameKitOperationResult"
  Effects :: "('req, 'res, 'st) effect list"

subsection \<open>Output references\<close>

definition ExtremelyLargeBPFrameSize :: int where
  "ExtremelyLargeBPFrameSize = 0x10000000"

definition NearbyStackAddressLimit :: int where
  "NearbyStackAddressLimit = 16384"

text \<open>
  \<open>InternalAwsGameKitThreadedActionSafeOutputRef\<close>, lines 37 to 77. The difference of
  line 70 is cast to \<open>size_t\<close>, 64 bits wide on the target platforms, so an address
  below \<open>stackobj\<close> gives a huge value; \<open>uint\<close> reads the unsigned value.
\<close>

definition InternalAwsGameKitThreadedActionSafeOutputRef ::
  "bool \<Rightarrow> callsite \<Rightarrow> addr \<Rightarrow> error + ref" where
  "InternalAwsGameKitThreadedActionSafeOutputRef do_check cs OutRef =
     (if do_check \<and>
         \<not> (PersistentFrame cs \<noteq> 0 \<and> sint (PersistentFrameSize cs) > 0 \<and>
            sint (PersistentFrameSize cs) < ExtremelyLargeBPFrameSize)
      then Inl check_PersistentFrame
      else if OutRef \<ge> PersistentFrame cs \<and>
              OutRef < PersistentFrame cs + sint (PersistentFrameSize cs)
      then Inr (Addr OutRef)
      else if do_check \<and>
              \<not> (uint (word_of_int (OutRef - stackobj cs) :: 64 word) < NearbyStackAddressLimit)
      then Inl check_NearbyStackAddress
      else Inr StaticJunkVarForIgnoredOutput)"

subsection \<open>The action\<close>

text \<open>\<open>InitializePartialResultQueue\<close>: the overload for \<open>FNoopStruct\<close> (line 136) and the
  template (lines 142 to 149).\<close>

fun InitializePartialResultQueue ::
  "PartialResultsDelegateType \<Rightarrow> ('res, 'st) TAwsGameKitInternalActionState \<Rightarrow>
   ('res, 'st) TAwsGameKitInternalActionState" where
  "InitializePartialResultQueue FNoopStruct st = st"
| "InitializePartialResultQueue (Delegate bound) st =
     (if bound then st\<lparr>PartialResultsQueue := Some []\<rparr> else st)"

text \<open>
  The constructor, lines 87 to 97. Members are initialised in declaration order, which
  is the order of the initialiser list; \<open>new TAwsGameKitInternalActionState\<close>
  default-constructs the three fields; \<open>ThreadedResult\<close> is a default \<open>TFuture\<close>.
\<close>

definition TAwsGameKitInternalThreadedAction ::
  "('res, 'st) build \<Rightarrow> callsite \<Rightarrow> FLatentActionInfo \<Rightarrow> 'req \<Rightarrow> addr \<Rightarrow> addr \<Rightarrow> addr \<Rightarrow>
   PartialResultsDelegateType \<Rightarrow> error + ('req, 'res, 'st) TAwsGameKitInternalThreadedAction" where
  "TAwsGameKitInternalThreadedAction b cs LatentInfoParam RequestParam SuccessOrFailureParam
       StatusParam ResultsParam PartialResultsDelegateParam =
     (case InternalAwsGameKitThreadedActionSafeOutputRef (DO_CHECK b) cs SuccessOrFailureParam of
        Inl e \<Rightarrow> Inl e
      | Inr osf \<Rightarrow>
     (case InternalAwsGameKitThreadedActionSafeOutputRef (DO_CHECK b) cs ResultsParam of
        Inl e \<Rightarrow> Inl e
      | Inr ores \<Rightarrow>
     (case InternalAwsGameKitThreadedActionSafeOutputRef (DO_CHECK b) cs StatusParam of
        Inl e \<Rightarrow> Inl e
      | Inr ost \<Rightarrow>
        Inr \<lparr>ThreadedState = InitializePartialResultQueue PartialResultsDelegateParam
                \<lparr>Err = OperationResult_default b, Results = ResultType_default b,
                 PartialResultsQueue = None\<rparr>,
             LatentInfo = LatentInfoParam,
             InRequest = RequestParam,
             OutSuccessOrFailure = osf,
             OutResults = ores,
             OutStatus = ost,
             PartialResultsDelegate = PartialResultsDelegateParam,
             ThreadedResult = NoFutureState\<rparr>)))"

text \<open>\<open>LaunchThreadedWork\<close>, lines 107 to 111: \<open>Async\<close> starts the thread and returns a valid
  future.\<close>

definition LaunchThreadedWork ::
  "('req, 'res, 'st) TAwsGameKitInternalThreadedAction \<Rightarrow>
   ('req, 'res, 'st) TAwsGameKitInternalThreadedAction" where
  "LaunchThreadedWork a = a\<lparr>ThreadedResult := TaskRunning\<rparr>"

text \<open>
  The loop of lines 162 to 168 on the elements in the queue when the poll starts:
  \<open>Dequeue\<close> takes the oldest, \<open>IsEmpty\<close> looks at the rest. It returns
  \<open>bInvokedWithFinal\<close> and the calls made.
\<close>

fun DispatchLoop ::
  "'req \<Rightarrow> bool \<Rightarrow> 'res list \<Rightarrow> bool \<Rightarrow> bool \<times> ('req, 'res, 'st) effect list" where
  "DispatchLoop req bThreadComplete [] bInvokedWithFinal = (bInvokedWithFinal, [])"
| "DispatchLoop req bThreadComplete (TempResults # q) bInvokedWithFinal =
     (let bFinalInvoke = (bThreadComplete \<and> q = []);
          (fin, calls) = DispatchLoop req bThreadComplete q (bInvokedWithFinal \<or> bFinalInvoke)
      in (fin, Execute req TempResults bFinalInvoke # calls))"

text \<open>\<open>DispatchPartialResults\<close>: the overload for \<open>FNoopStruct\<close> (line 139) and the template
  (lines 151 to 175).\<close>

definition DispatchPartialResults ::
  "('res, 'st) build \<Rightarrow> PartialResultsDelegateType \<Rightarrow> bool \<Rightarrow> ('req, 'res, 'st) world \<Rightarrow>
   error + ('req, 'res, 'st) world" where
  "DispatchPartialResults b dlg bThreadComplete w =
     (case dlg of
        FNoopStruct \<Rightarrow> Inr w
      | Delegate bound \<Rightarrow>
          if \<not> bound then Inr w
          else (case PartialResultsQueue (ThreadedState (Action w)) of
                  None \<Rightarrow> Inl (if DO_CHECK b then check_PartialResultsQueue
                               else unset_PartialResultsQueue)
                | Some q \<Rightarrow>
                    let (bInvokedWithFinal, calls) =
                          DispatchLoop (InRequest (Action w)) bThreadComplete q False;
                        a = (Action w)\<lparr>ThreadedState :=
                               (ThreadedState (Action w))\<lparr>PartialResultsQueue := Some []\<rparr>\<rparr>;
                        last_call =
                          (if bThreadComplete \<and> \<not> bInvokedWithFinal
                           then [Execute (InRequest (Action w)) (ResultType_default b) True]
                           else [])
                    in Inr (w\<lparr>Action := a, Effects := Effects w @ calls @ last_call\<rparr>)))"

definition FinishAndTriggerIf_response ::
  "bool \<Rightarrow> string \<Rightarrow> int \<Rightarrow> nat \<Rightarrow> FLatentResponse \<Rightarrow> FLatentResponse" where
  "FinishAndTriggerIf_response c f l t r =
     r\<lparr>bRemoveAction := c,
       LinksToExecute := (if c then LinksToExecute r @ [(f, l, t)] else LinksToExecute r)\<rparr>"

text \<open>The four statements of lines 121 to 124, one definition each.\<close>

definition move_Results :: "('res, 'st) build \<Rightarrow> ('req, 'res, 'st) world \<Rightarrow> ('req, 'res, 'st) world" where
  "move_Results b w =
     (let a = Action w; v = Results (ThreadedState a)
      in w\<lparr>Action := a\<lparr>ThreadedState := (ThreadedState a)\<lparr>Results := ResultType_moved_from b v\<rparr>\<rparr>,
           ResultsMemory := (ResultsMemory w)(OutResults a := v),
           Effects := Effects w @ [Assign_OutResults (OutResults a) v]\<rparr>)"

definition copy_Status :: "('req, 'res, 'st) world \<Rightarrow> ('req, 'res, 'st) world" where
  "copy_Status w =
     (let a = Action w; v = Err (ThreadedState a)
      in w\<lparr>StatusMemory := (StatusMemory w)(OutStatus a := v),
           Effects := Effects w @ [Assign_OutStatus (OutStatus a) v]\<rparr>)"

definition select_pin :: "('res, 'st) build \<Rightarrow> ('req, 'res, 'st) world \<Rightarrow> ('req, 'res, 'st) world" where
  "select_pin b w =
     (let a = Action w;
          v = (if Status (Err (ThreadedState a)) = GAMEKIT_SUCCESS b then OnSuccess else OnFailure)
      in w\<lparr>SuccessOrFailureMemory := (SuccessOrFailureMemory w)(OutSuccessOrFailure a := v),
           Effects := Effects w @ [Assign_OutSuccessOrFailure (OutSuccessOrFailure a) v]\<rparr>)"

definition finish :: "('req, 'res, 'st) world \<Rightarrow> ('req, 'res, 'st) world" where
  "finish w =
     (let i = LatentInfo (Action w)
      in w\<lparr>Effects := Effects w @
             [FinishAndTriggerIf True (ExecutionFunction i) (Linkage i) (CallbackTarget i)]\<rparr>)"

text \<open>\<open>UpdateOperation\<close>, lines 115 to 130.\<close>

definition UpdateOperation ::
  "('res, 'st) build \<Rightarrow> ('req, 'res, 'st) world \<Rightarrow> FLatentResponse \<Rightarrow>
   error + ('req, 'res, 'st) world \<times> FLatentResponse" where
  "UpdateOperation b w Response =
     (if DO_CHECK b \<and> \<not> IsValid (ThreadedResult (Action w)) then Inl check_ThreadedResult_IsValid
      else if IsReady (ThreadedResult (Action w)) then
        (case DispatchPartialResults b (PartialResultsDelegate (Action w)) True w of
           Inl e \<Rightarrow> Inl e
         | Inr w1 \<Rightarrow>
             Inr (finish (select_pin b (copy_Status (move_Results b w1))),
                  let i = LatentInfo (Action w)
                  in FinishAndTriggerIf_response True (ExecutionFunction i) (Linkage i)
                       (CallbackTarget i) Response))
      else
        (case DispatchPartialResults b (PartialResultsDelegate (Action w)) False w of
           Inl e \<Rightarrow> Inl e
         | Inr w1 \<Rightarrow> Inr (w1, Response)))"

text \<open>
  \<open>InternalMakeAwsGameKitThreadedAction\<close>, lines 187 to 202: it constructs the action and
  hands it to the latent action manager (\<open>AddNewAction\<close>). The memory behind the output
  parameters is what it is at the call.
\<close>

definition InternalMakeAwsGameKitThreadedAction ::
  "('res, 'st) build \<Rightarrow> callsite \<Rightarrow>
   (ref \<Rightarrow> EAwsGameKitSuccessOrFailureExecutionPin) \<Rightarrow> (ref \<Rightarrow> 'st FAwsGameKitOperationResult) \<Rightarrow>
   (ref \<Rightarrow> 'res) \<Rightarrow>
   FLatentActionInfo \<Rightarrow> 'req \<Rightarrow> addr \<Rightarrow> addr \<Rightarrow> addr \<Rightarrow> PartialResultsDelegateType \<Rightarrow>
   error + ('req, 'res, 'st) world" where
  "InternalMakeAwsGameKitThreadedAction b cs mSuccessOrFailure mStatus mResults
       LatentInfoParam Request SuccessOrFailure Status' Results' Delegate' =
     (case TAwsGameKitInternalThreadedAction b cs LatentInfoParam Request SuccessOrFailure
             Status' Results' Delegate' of
        Inl e \<Rightarrow> Inl e
      | Inr a \<Rightarrow>
          Inr \<lparr>Action = a, InLatentActionManager = True,
               SuccessOrFailureMemory = mSuccessOrFailure,
               ResultsMemory = mResults, StatusMemory = mStatus, Effects = []\<rparr>)"

definition launch :: "('req, 'res, 'st) world \<Rightarrow> ('req, 'res, 'st) world" where
  "launch w = w\<lparr>Action := LaunchThreadedWork (Action w)\<rparr>"

subsection \<open>The two threads\<close>

text \<open>
  The engine's latent action manager, once per frame: it calls \<open>UpdateOperation\<close> of an
  action it holds with a fresh \<open>FLatentResponse\<close>, and destroys the action when the
  response says \<open>bRemoveAction\<close>. The manager is the engine's, not this repository's;
  this is its contract with a \<open>FPendingLatentAction\<close>.
\<close>

definition TickLatentAction ::
  "('res, 'st) build \<Rightarrow> ('req, 'res, 'st) world \<Rightarrow> error + ('req, 'res, 'st) world" where
  "TickLatentAction b w =
     (if \<not> InLatentActionManager w then Inr w
      else (case UpdateOperation b w \<lparr>bRemoveAction = False, LinksToExecute = []\<rparr> of
              Inl e \<Rightarrow> Inl e
            | Inr (w', Response) \<Rightarrow> Inr (w'\<lparr>InLatentActionManager := \<not> bRemoveAction Response\<rparr>)))"

text \<open>
  The lambda given to \<open>LaunchThreadedWork\<close> is the caller's. Lines 103 to 106 say what it
  does: it fills \<open>ThreadedState\<close> and streams partial results into
  \<open>PartialResultsQueue\<close> if the queue is valid; then it returns, which completes the
  future. A schedule interleaves these steps of the thread with the polls of the
  manager; a poll is atomic in it (results the thread enqueues during a poll's loop are
  dequeued by that loop or by the next poll, in the same order).
\<close>

datatype ('res, 'st) step =
    Enqueue 'res
  | FillResults 'res
  | FillErr "'st FAwsGameKitOperationResult"
  | Return
  | Tick

fun thread_step ::
  "('res, 'st) step \<Rightarrow> ('req, 'res, 'st) TAwsGameKitInternalThreadedAction \<Rightarrow>
   ('req, 'res, 'st) TAwsGameKitInternalThreadedAction" where
  "thread_step (Enqueue r) a =
     (case PartialResultsQueue (ThreadedState a) of
        None \<Rightarrow> a
      | Some q \<Rightarrow> a\<lparr>ThreadedState := (ThreadedState a)\<lparr>PartialResultsQueue := Some (q @ [r])\<rparr>\<rparr>)"
| "thread_step (FillResults r) a = a\<lparr>ThreadedState := (ThreadedState a)\<lparr>Results := r\<rparr>\<rparr>"
| "thread_step (FillErr e) a = a\<lparr>ThreadedState := (ThreadedState a)\<lparr>Err := e\<rparr>\<rparr>"
| "thread_step Return a = a\<lparr>ThreadedResult := TaskComplete\<rparr>"
| "thread_step Tick a = a"

definition step ::
  "('res, 'st) build \<Rightarrow> ('res, 'st) step \<Rightarrow> ('req, 'res, 'st) world \<Rightarrow>
   error + ('req, 'res, 'st) world" where
  "step b e w =
     (if e = Tick then TickLatentAction b w
      else if ThreadedResult (Action w) = TaskRunning
      then Inr (w\<lparr>Action := thread_step e (Action w)\<rparr>)
      else Inr w)"

fun run ::
  "('res, 'st) build \<Rightarrow> ('res, 'st) step list \<Rightarrow> ('req, 'res, 'st) world \<Rightarrow>
   error + ('req, 'res, 'st) world" where
  "run b [] w = Inr w"
| "run b (e # es) w = (case step b e w of Inl x \<Rightarrow> Inl x | Inr w' \<Rightarrow> run b es w')"

subsection \<open>What the claims observe\<close>

text \<open>The results the thread enqueues before it returns, in order.\<close>

fun enqueued :: "('res, 'st) step list \<Rightarrow> 'res list" where
  "enqueued [] = []"
| "enqueued (Enqueue r # es) = r # enqueued es"
| "enqueued (Return # es) = []"
| "enqueued (e # es) = enqueued es"

text \<open>Whether the manager polls after the thread has returned.\<close>

fun polled_after_return :: "('res, 'st) step list \<Rightarrow> bool" where
  "polled_after_return [] = False"
| "polled_after_return (Return # es) = (Tick \<in> set es)"
| "polled_after_return (e # es) = polled_after_return es"



text \<open>The number of polls of a schedule in which \<open>UpdateOperation\<close> runs and sees
  \<open>IsReady()\<close>.\<close>

fun completion_polls ::
  "('res, 'st) build \<Rightarrow> ('res, 'st) step list \<Rightarrow> ('req, 'res, 'st) world \<Rightarrow> nat" where
  "completion_polls b [] w = 0"
| "completion_polls b (e # es) w =
     (if e = Tick \<and> InLatentActionManager w \<and> IsReady (ThreadedResult (Action w)) then 1 else 0) +
     (case step b e w of Inl x \<Rightarrow> 0 | Inr w' \<Rightarrow> completion_polls b es w')"

fun is_Execute :: "('req, 'res, 'st) effect \<Rightarrow> bool" where
  "is_Execute (Execute q r f) = True"
| "is_Execute _ = False"

fun is_final_Execute :: "('req, 'res, 'st) effect \<Rightarrow> bool" where
  "is_final_Execute (Execute q r f) = f"
| "is_final_Execute _ = False"




text \<open>A partial-results callback is registered and bound.\<close>

fun registered_and_bound :: "PartialResultsDelegateType \<Rightarrow> bool" where
  "registered_and_bound FNoopStruct = False"
| "registered_and_bound (Delegate bound) = bound"

text \<open>The elements waiting in the queue, none when there is no queue.\<close>

definition waiting :: "('req, 'res, 'st) world \<Rightarrow> 'res list" where
  "waiting w = (case PartialResultsQueue (ThreadedState (Action w)) of None \<Rightarrow> [] | Some q \<Rightarrow> q)"

text \<open>An address lies in the persistent frame (the condition of line 54).\<close>

definition in_persistent_frame :: "callsite \<Rightarrow> addr \<Rightarrow> bool" where
  "in_persistent_frame cs a =
     (a \<ge> PersistentFrame cs \<and> a < PersistentFrame cs + sint (PersistentFrameSize cs))"

subsection \<open>Auxiliary notions for the proofs\<close>

text \<open>The calls a completion poll makes for a bound delegate when \<open>q\<close> is waiting: the
  flag is true on the last element, or on one more call with the default result.\<close>

definition completion_calls ::
  "('res, 'st) build \<Rightarrow> 'req \<Rightarrow> 'res list \<Rightarrow> ('req, 'res, 'st) effect list" where
  "completion_calls b req q =
     map (\<lambda>r. Execute req r False) (butlast q) @
     [Execute req (if q = [] then ResultType_default b else last q) True]"

text \<open>The world with its queue, if there is one, emptied.\<close>

definition drained :: "('req, 'res, 'st) world \<Rightarrow> ('req, 'res, 'st) world" where
  "drained w =
     w\<lparr>Action := (Action w)\<lparr>ThreadedState := (ThreadedState (Action w))
          \<lparr>PartialResultsQueue :=
             map_option (\<lambda>q. []) (PartialResultsQueue (ThreadedState (Action w)))\<rparr>\<rparr>\<rparr>"

text \<open>The invariant of a launched action: there is a queue exactly for a bound delegate,
  and the future is valid.\<close>

definition queue_inv :: "('req, 'res, 'st) world \<Rightarrow> bool" where
  "queue_inv w =
     ((PartialResultsQueue (ThreadedState (Action w)) \<noteq> None) =
      registered_and_bound (PartialResultsDelegate (Action w)))"

definition action_inv :: "('req, 'res, 'st) world \<Rightarrow> bool" where
  "action_inv w = (IsValid (ThreadedResult (Action w)) \<and> queue_inv w)"

text \<open>The four effects that end a completion poll of \<open>w\<close>.\<close>

definition completion_effects ::
  "('res, 'st) build \<Rightarrow> ('req, 'res, 'st) world \<Rightarrow> ('req, 'res, 'st) effect list" where
  "completion_effects b w =
     (let a = Action w; st = ThreadedState a; i = LatentInfo a in
      [Assign_OutResults (OutResults a) (Results st),
       Assign_OutStatus (OutStatus a) (Err st),
       Assign_OutSuccessOrFailure (OutSuccessOrFailure a)
         (if Status (Err st) = GAMEKIT_SUCCESS b then OnSuccess else OnFailure),
       FinishAndTriggerIf True (ExecutionFunction i) (Linkage i) (CallbackTarget i)])"

text \<open>The members of the action that no step assigns.\<close>

definition static ::
  "('req, 'res, 'st) world \<Rightarrow>
   PartialResultsDelegateType \<times> 'req \<times> FLatentActionInfo \<times> ref \<times> ref \<times> ref" where
  "static w =
     (PartialResultsDelegate (Action w), InRequest (Action w), LatentInfo (Action w),
      OutSuccessOrFailure (Action w), OutResults (Action w), OutStatus (Action w))"

text \<open>
  What a schedule \<open>es\<close> makes of a running action \<open>w0\<close>. As long as the manager has not polled
  after the thread's return, only calls with the flag false were added, for a prefix \<open>ds\<close> of
  the results enqueued, the rest waiting. Once it has, the calls are followed by those of
  the completion poll, which found \<open>q\<close> waiting, and by its four effects.
\<close>

definition pending_outcome ::
  "('req, 'res, 'st) world \<Rightarrow> ('res, 'st) step list \<Rightarrow> ('req, 'res, 'st) world \<Rightarrow> bool" where
  "pending_outcome w0 es w =
     (InLatentActionManager w \<and>
      SuccessOrFailureMemory w = SuccessOrFailureMemory w0 \<and>
      ResultsMemory w = ResultsMemory w0 \<and> StatusMemory w = StatusMemory w0 \<and>
      (\<exists>ds. Effects w = Effects w0 @ map (\<lambda>r. Execute (InRequest (Action w0)) r False) ds \<and>
        (if registered_and_bound (PartialResultsDelegate (Action w0))
         then ds @ waiting w = waiting w0 @ enqueued es else ds = [])))"

definition finished_outcome ::
  "('res, 'st) build \<Rightarrow> ('req, 'res, 'st) world \<Rightarrow> ('res, 'st) step list \<Rightarrow>
   ('req, 'res, 'st) world \<Rightarrow> bool" where
  "finished_outcome b w0 es w =
     (\<not> InLatentActionManager w \<and> ThreadedResult (Action w) = TaskComplete \<and>
      (\<exists>ds q v e.
        Effects w = Effects w0 @ map (\<lambda>r. Execute (InRequest (Action w0)) r False) ds @
          (if registered_and_bound (PartialResultsDelegate (Action w0))
           then completion_calls b (InRequest (Action w0)) q else []) @
          [Assign_OutResults (OutResults (Action w0)) v,
           Assign_OutStatus (OutStatus (Action w0)) e,
           Assign_OutSuccessOrFailure (OutSuccessOrFailure (Action w0))
             (if Status e = GAMEKIT_SUCCESS b then OnSuccess else OnFailure),
           FinishAndTriggerIf True (ExecutionFunction (LatentInfo (Action w0)))
             (Linkage (LatentInfo (Action w0))) (CallbackTarget (LatentInfo (Action w0)))] \<and>
        (if registered_and_bound (PartialResultsDelegate (Action w0))
         then ds @ q = waiting w0 @ enqueued es else ds = []) \<and>
        SuccessOrFailureMemory w = (SuccessOrFailureMemory w0)(OutSuccessOrFailure (Action w0) :=
             (if Status e = GAMEKIT_SUCCESS b then OnSuccess else OnFailure)) \<and>
        ResultsMemory w = (ResultsMemory w0)(OutResults (Action w0) := v) \<and>
        StatusMemory w = (StatusMemory w0)(OutStatus (Action w0) := e) \<and>
        Err (ThreadedState (Action w)) = e \<and>
        Results (ThreadedState (Action w)) = ResultType_moved_from b v))"

subsection \<open>A concrete action\<close>

text \<open>
  A build with checks, a frame of 64 bytes at address 4096, a status and a pin output in
  the frame and a results output on the stack 100 bytes above \<open>stackobj\<close>, a bound
  delegate; and the worlds some schedules lead to.
\<close>

definition example_build :: "(nat, nat) build" where
  "example_build = \<lparr>DO_CHECK = True, GAMEKIT_SUCCESS = 0, ResultType_default = 0,
     ResultType_moved_from = (\<lambda>r. 0), OperationResult_default = \<lparr>Status = 0\<rparr>\<rparr>"

definition example_callsite :: callsite where
  "example_callsite = \<lparr>PersistentFrame = 4096, PersistentFrameSize = 64, stackobj = 1000000\<rparr>"

definition example_info :: FLatentActionInfo where
  "example_info = \<lparr>Linkage = 1, UUID = 7, ExecutionFunction = ''ExecuteUbergraph'',
     CallbackTarget = 3\<rparr>"

definition example_action ::
  "nat FAwsGameKitOperationResult \<Rightarrow> nat \<Rightarrow> nat list \<Rightarrow> TFuture \<Rightarrow>
   (nat, nat, nat) TAwsGameKitInternalThreadedAction" where
  "example_action e r q f =
     \<lparr>ThreadedState = \<lparr>Err = e, Results = r, PartialResultsQueue = Some q\<rparr>,
      LatentInfo = example_info, InRequest = 5,
      OutSuccessOrFailure = Addr 4096, OutResults = StaticJunkVarForIgnoredOutput,
      OutStatus = Addr 4100, PartialResultsDelegate = Delegate True, ThreadedResult = f\<rparr>"

definition example_made :: "(nat, nat, nat) world" where
  "example_made =
     \<lparr>Action = example_action \<lparr>Status = 0\<rparr> 0 [] NoFutureState, InLatentActionManager = True,
      SuccessOrFailureMemory = (\<lambda>a. OnSuccess), ResultsMemory = (\<lambda>a. 0),
      StatusMemory = (\<lambda>a. \<lparr>Status = 0\<rparr>), Effects = []\<rparr>"

definition example_schedule :: "(nat, nat) step list" where
  "example_schedule =
     [Enqueue 11, Tick, Enqueue 12, Enqueue 13, FillErr \<lparr>Status = 9\<rparr>, FillResults 21]"

definition example_running :: "(nat, nat, nat) world" where
  "example_running =
     example_made\<lparr>Action := example_action \<lparr>Status = 9\<rparr> 21 [12, 13] TaskRunning,
       Effects := [Execute 5 11 False]\<rparr>"

definition example_returned :: "(nat, nat, nat) world" where
  "example_returned =
     example_made\<lparr>Action := example_action \<lparr>Status = 9\<rparr> 21 [12, 13] TaskComplete,
       Effects := [Execute 5 11 False]\<rparr>"

definition example_finished :: "(nat, nat, nat) world" where
  "example_finished =
     \<lparr>Action = example_action \<lparr>Status = 9\<rparr> 0 [] TaskComplete, InLatentActionManager = False,
      SuccessOrFailureMemory = (\<lambda>a. OnSuccess)(Addr 4096 := OnFailure),
      ResultsMemory = (\<lambda>a. 0)(StaticJunkVarForIgnoredOutput := 21),
      StatusMemory = (\<lambda>a. \<lparr>Status = 0\<rparr>)(Addr 4100 := \<lparr>Status = 9\<rparr>),
      Effects = [Execute 5 11 False, Execute 5 12 False, Execute 5 13 True,
        Assign_OutResults StaticJunkVarForIgnoredOutput 21,
        Assign_OutStatus (Addr 4100) \<lparr>Status = 9\<rparr>,
        Assign_OutSuccessOrFailure (Addr 4096) OnFailure,
        FinishAndTriggerIf True ''ExecuteUbergraph'' 1 3]\<rparr>"

definition example_returned_at_once :: "(nat, nat, nat) world" where
  "example_returned_at_once =
     example_made\<lparr>Action := example_action \<lparr>Status = 0\<rparr> 0 [] TaskComplete\<rparr>"

definition example_finished_at_once :: "(nat, nat, nat) world" where
  "example_finished_at_once =
     \<lparr>Action = example_action \<lparr>Status = 0\<rparr> 0 [] TaskComplete, InLatentActionManager = False,
      SuccessOrFailureMemory = (\<lambda>a. OnSuccess)(Addr 4096 := OnSuccess),
      ResultsMemory = (\<lambda>a. 0)(StaticJunkVarForIgnoredOutput := 0),
      StatusMemory = (\<lambda>a. \<lparr>Status = 0\<rparr>)(Addr 4100 := \<lparr>Status = 0\<rparr>),
      Effects = [Execute 5 0 True,
        Assign_OutResults StaticJunkVarForIgnoredOutput 0,
        Assign_OutStatus (Addr 4100) \<lparr>Status = 0\<rparr>,
        Assign_OutSuccessOrFailure (Addr 4096) OnSuccess,
        FinishAndTriggerIf True ''ExecuteUbergraph'' 1 3]\<rparr>"






section \<open>Lemmas about polls and schedules\<close>

lemma DispatchLoop_incomplete:
  "DispatchLoop req False q fin = (fin, map (\<lambda>r. Execute req r False) q)"
  by (induction q arbitrary: fin) simp_all

lemma DispatchLoop_complete:
  "DispatchLoop req True q fin =
     (fin \<or> q \<noteq> [],
      map (\<lambda>r. Execute req r False) (butlast q) @
      (if q = [] then [] else [Execute req (last q) True]))"
  by (induction q arbitrary: fin) (auto simp: Let_def)

lemma Dispatch_incomplete:
  assumes "queue_inv w"
  shows "DispatchPartialResults b (PartialResultsDelegate (Action w)) False w =
     Inr ((drained w)\<lparr>Effects := Effects w @ map (\<lambda>r. Execute (InRequest (Action w)) r False) (waiting w)\<rparr>)"
  using assms
  by (cases "PartialResultsDelegate (Action w)")
     (auto simp: queue_inv_def DispatchPartialResults_def drained_def waiting_def DispatchLoop_incomplete split: option.splits)

lemma Dispatch_complete:
  assumes "queue_inv w"
  shows "DispatchPartialResults b (PartialResultsDelegate (Action w)) True w =
     Inr ((drained w)\<lparr>Effects := Effects w @
        (if registered_and_bound (PartialResultsDelegate (Action w)) then completion_calls b (InRequest (Action w)) (waiting w) else [])\<rparr>)"
  using assms
  by (cases "PartialResultsDelegate (Action w)")
     (auto simp: queue_inv_def DispatchPartialResults_def drained_def waiting_def DispatchLoop_complete completion_calls_def split: option.splits)

lemma UpdateOperation_incomplete:
  assumes "action_inv w" "\<not> IsReady (ThreadedResult (Action w))"
  shows "UpdateOperation b w R =
     Inr ((drained w)\<lparr>Effects := Effects w @ map (\<lambda>r. Execute (InRequest (Action w)) r False) (waiting w)\<rparr>, R)"
  using assms by (simp add: UpdateOperation_def action_inv_def Dispatch_incomplete)

lemma UpdateOperation_complete:
  assumes "action_inv w" "IsReady (ThreadedResult (Action w))"
  shows "\<exists>w'. UpdateOperation b w R =
            Inr (w', FinishAndTriggerIf_response True (ExecutionFunction (LatentInfo (Action w)))
                       (Linkage (LatentInfo (Action w))) (CallbackTarget (LatentInfo (Action w))) R) \<and>
          Effects w' = Effects w @
            (if registered_and_bound (PartialResultsDelegate (Action w))
             then completion_calls b (InRequest (Action w)) (waiting w) else []) @
            completion_effects b w \<and>
          Action w' = (Action w)\<lparr>ThreadedState := (ThreadedState (Action w))
             \<lparr>Results := ResultType_moved_from b (Results (ThreadedState (Action w))),
              PartialResultsQueue := map_option (\<lambda>q. []) (PartialResultsQueue (ThreadedState (Action w)))\<rparr>\<rparr> \<and>
          InLatentActionManager w' = InLatentActionManager w \<and>
          ResultsMemory w' = (ResultsMemory w)(OutResults (Action w) := Results (ThreadedState (Action w))) \<and>
          StatusMemory w' = (StatusMemory w)(OutStatus (Action w) := Err (ThreadedState (Action w))) \<and>
          SuccessOrFailureMemory w' = (SuccessOrFailureMemory w)(OutSuccessOrFailure (Action w) :=
             (if Status (Err (ThreadedState (Action w))) = GAMEKIT_SUCCESS b then OnSuccess else OnFailure))"
  using assms
  by (simp add: UpdateOperation_def action_inv_def Dispatch_complete finish_def select_pin_def copy_Status_def
        move_Results_def drained_def completion_effects_def Let_def IsValid_def IsReady_def)

lemma Tick_running:
  assumes "action_inv w" "InLatentActionManager w" "ThreadedResult (Action w) = TaskRunning"
  shows "TickLatentAction b w =
     Inr ((drained w)\<lparr>Effects := Effects w @ map (\<lambda>r. Execute (InRequest (Action w)) r False) (waiting w)\<rparr>)"
  using assms by (simp add: TickLatentAction_def UpdateOperation_incomplete IsReady_def drained_def)

lemma Tick_complete:
  assumes "action_inv w" "InLatentActionManager w" "ThreadedResult (Action w) = TaskComplete"
  shows "\<exists>w'. TickLatentAction b w = Inr w' \<and>
          Effects w' = Effects w @
            (if registered_and_bound (PartialResultsDelegate (Action w))
             then completion_calls b (InRequest (Action w)) (waiting w) else []) @
            completion_effects b w \<and>
          Action w' = (Action w)\<lparr>ThreadedState := (ThreadedState (Action w))
             \<lparr>Results := ResultType_moved_from b (Results (ThreadedState (Action w))),
              PartialResultsQueue := map_option (\<lambda>q. []) (PartialResultsQueue (ThreadedState (Action w)))\<rparr>\<rparr> \<and>
          \<not> InLatentActionManager w' \<and>
          ResultsMemory w' = (ResultsMemory w)(OutResults (Action w) := Results (ThreadedState (Action w))) \<and>
          StatusMemory w' = (StatusMemory w)(OutStatus (Action w) := Err (ThreadedState (Action w))) \<and>
          SuccessOrFailureMemory w' = (SuccessOrFailureMemory w)(OutSuccessOrFailure (Action w) :=
             (if Status (Err (ThreadedState (Action w))) = GAMEKIT_SUCCESS b then OnSuccess else OnFailure))"
proof -
  from assms have "IsReady (ThreadedResult (Action w))" by (simp add: IsReady_def)
  from UpdateOperation_complete [OF assms(1) this, of b "\<lparr>bRemoveAction = False, LinksToExecute = []\<rparr>"]
  obtain w1 where u: "UpdateOperation b w \<lparr>bRemoveAction = False, LinksToExecute = []\<rparr> =
            Inr (w1, FinishAndTriggerIf_response True (ExecutionFunction (LatentInfo (Action w)))
                       (Linkage (LatentInfo (Action w))) (CallbackTarget (LatentInfo (Action w))) \<lparr>bRemoveAction = False, LinksToExecute = []\<rparr>)"
    and rest: "Effects w1 = Effects w @
            (if registered_and_bound (PartialResultsDelegate (Action w))
             then completion_calls b (InRequest (Action w)) (waiting w) else []) @
            completion_effects b w"
      "Action w1 = (Action w)\<lparr>ThreadedState := (ThreadedState (Action w))
             \<lparr>Results := ResultType_moved_from b (Results (ThreadedState (Action w))),
              PartialResultsQueue := map_option (\<lambda>q. []) (PartialResultsQueue (ThreadedState (Action w)))\<rparr>\<rparr>"
      "ResultsMemory w1 = (ResultsMemory w)(OutResults (Action w) := Results (ThreadedState (Action w)))"
      "StatusMemory w1 = (StatusMemory w)(OutStatus (Action w) := Err (ThreadedState (Action w)))"
      "SuccessOrFailureMemory w1 = (SuccessOrFailureMemory w)(OutSuccessOrFailure (Action w) :=
             (if Status (Err (ThreadedState (Action w))) = GAMEKIT_SUCCESS b then OnSuccess else OnFailure))"
    by blast
  show ?thesis
    using assms(2) u rest
    by (simp add: TickLatentAction_def FinishAndTriggerIf_response_def)
qed

lemma step_action_inv:
  assumes "action_inv w"
  shows "\<exists>w'. step b e w = Inr w' \<and> action_inv w' \<and> static w' = static w"
proof (cases "e = Tick")
  case True
  show ?thesis
  proof (cases "InLatentActionManager w")
    case False
    with True assms show ?thesis by (simp add: step_def TickLatentAction_def)
  next
    case reg: True
    show ?thesis
    proof (cases "ThreadedResult (Action w) = TaskComplete")
      case True
      from Tick_complete [OF assms reg True, of b] obtain w' where
        "TickLatentAction b w = Inr w'"
        "Action w' = (Action w)\<lparr>ThreadedState := (ThreadedState (Action w))
             \<lparr>Results := ResultType_moved_from b (Results (ThreadedState (Action w))),
              PartialResultsQueue := map_option (\<lambda>q. []) (PartialResultsQueue (ThreadedState (Action w)))\<rparr>\<rparr>"
        by blast
      with assms \<open>e = Tick\<close> show ?thesis
        by (simp add: step_def action_inv_def queue_inv_def static_def)
    next
      case False
      with assms have run: "ThreadedResult (Action w) = TaskRunning"
        by (cases "ThreadedResult (Action w)") (simp_all add: action_inv_def IsValid_def)
      from Tick_running [OF assms reg run, of b] assms \<open>e = Tick\<close> show ?thesis
        by (simp add: step_def action_inv_def queue_inv_def static_def drained_def)
    qed
  qed
next
  case False
  with assms show ?thesis
    by (cases e) (auto simp: step_def action_inv_def queue_inv_def static_def IsValid_def split: option.splits)
qed

lemma run_action_inv:
  assumes "action_inv w"
  shows "\<exists>w'. run b es w = Inr w' \<and> action_inv w' \<and> static w' = static w"
  using assms
proof (induction es arbitrary: w)
  case Nil
  then show ?case by simp
next
  case (Cons e es)
  from step_action_inv [OF Cons.prems, of b e] obtain w1 where
    s: "step b e w = Inr w1" "action_inv w1" "static w1 = static w" by blast
  from Cons.IH [OF s(2)] s show ?case by auto
qed

lemma run_finished:
  assumes "\<not> InLatentActionManager w" "ThreadedResult (Action w) = TaskComplete"
  shows "run b es w = Inr w"
  using assms by (induction es) (simp_all add: step_def TickLatentAction_def)

lemma run_complete:
  assumes "action_inv w" "InLatentActionManager w" "ThreadedResult (Action w) = TaskComplete"
  shows "run b es w = (if Tick \<in> set es then TickLatentAction b w else Inr w)"
  using assms
proof (induction es)
  case Nil
  then show ?case by simp
next
  case (Cons e es)
  show ?case
  proof (cases "e = Tick")
    case True
    from Tick_complete [OF Cons.prems, of b] obtain w' where
      t: "TickLatentAction b w = Inr w'" "\<not> InLatentActionManager w'"
         "Action w' = (Action w)\<lparr>ThreadedState := (ThreadedState (Action w))
             \<lparr>Results := ResultType_moved_from b (Results (ThreadedState (Action w))),
              PartialResultsQueue := map_option (\<lambda>q. []) (PartialResultsQueue (ThreadedState (Action w)))\<rparr>\<rparr>"
      by blast
    then have "ThreadedResult (Action w') = TaskComplete" using Cons.prems by simp
    from run_finished [OF t(2) this, of b es] t True show ?thesis by (simp add: step_def)
  next
    case False
    then have "step b e w = Inr w" using Cons.prems by (simp add: step_def)
    with False Cons show ?thesis by simp
  qed
qed

lemma unbound_waiting:
  "action_inv w \<Longrightarrow> \<not> registered_and_bound (PartialResultsDelegate (Action w)) \<Longrightarrow> waiting w = []"
  by (simp add: action_inv_def queue_inv_def waiting_def)

lemma run_complete_outcome:
  assumes "action_inv w0" "InLatentActionManager w0" "ThreadedResult (Action w0) = TaskComplete"
  shows "\<exists>w. run b es w0 = Inr w \<and>
           (if Tick \<in> set es then finished_outcome b w0 [] w else w = w0)"
proof (cases "Tick \<in> set es")
  case False
  with run_complete [OF assms, of b es] show ?thesis by simp
next
  case True
  from Tick_complete [OF assms, of b] obtain w' where
    t: "TickLatentAction b w0 = Inr w'"
       "Effects w' = Effects w0 @
            (if registered_and_bound (PartialResultsDelegate (Action w0))
             then completion_calls b (InRequest (Action w0)) (waiting w0) else []) @
            completion_effects b w0"
       "Action w' = (Action w0)\<lparr>ThreadedState := (ThreadedState (Action w0))
             \<lparr>Results := ResultType_moved_from b (Results (ThreadedState (Action w0))),
              PartialResultsQueue := map_option (\<lambda>q. []) (PartialResultsQueue (ThreadedState (Action w0)))\<rparr>\<rparr>"
       "\<not> InLatentActionManager w'"
       "ResultsMemory w' = (ResultsMemory w0)(OutResults (Action w0) := Results (ThreadedState (Action w0)))"
       "StatusMemory w' = (StatusMemory w0)(OutStatus (Action w0) := Err (ThreadedState (Action w0)))"
       "SuccessOrFailureMemory w' = (SuccessOrFailureMemory w0)(OutSuccessOrFailure (Action w0) :=
             (if Status (Err (ThreadedState (Action w0))) = GAMEKIT_SUCCESS b then OnSuccess else OnFailure))"
    by blast
  have "finished_outcome b w0 [] w'"
    unfolding finished_outcome_def
    apply (intro conjI)
      apply (rule t(4))
     apply (simp add: t(3) assms(3))
    apply (rule exI [of _ "[]"])
    apply (rule exI [of _ "waiting w0"])
    apply (rule exI [of _ "Results (ThreadedState (Action w0))"])
    apply (rule exI [of _ "Err (ThreadedState (Action w0))"])
    using t(2,3,5,6,7) assms(1)
    apply (simp add: completion_effects_def Let_def)
    done
  with run_complete [OF assms, of b es] True t(1) show ?thesis by simp
qed

lemma staticD:
  "static w' = static w \<Longrightarrow>
   PartialResultsDelegate (Action w') = PartialResultsDelegate (Action w) \<and>
   InRequest (Action w') = InRequest (Action w) \<and>
   LatentInfo (Action w') = LatentInfo (Action w) \<and>
   OutSuccessOrFailure (Action w') = OutSuccessOrFailure (Action w) \<and>
   OutResults (Action w') = OutResults (Action w) \<and>
   OutStatus (Action w') = OutStatus (Action w)"
  by (simp add: static_def)

lemma completion_polls_finished:
  assumes "\<not> InLatentActionManager w" "ThreadedResult (Action w) = TaskComplete"
  shows "completion_polls b es w = 0"
  using assms by (induction es) (simp_all add: step_def TickLatentAction_def)

lemma completion_polls_complete:
  assumes "action_inv w" "InLatentActionManager w" "ThreadedResult (Action w) = TaskComplete"
  shows "completion_polls b es w = (if Tick \<in> set es then 1 else 0)"
  using assms
proof (induction es)
  case Nil
  then show ?case by simp
next
  case (Cons e es)
  show ?case
  proof (cases "e = Tick")
    case True
    from Tick_complete [OF Cons.prems, of b] obtain w' where
      t: "TickLatentAction b w = Inr w'" "\<not> InLatentActionManager w'"
         "Action w' = (Action w)\<lparr>ThreadedState := (ThreadedState (Action w))
             \<lparr>Results := ResultType_moved_from b (Results (ThreadedState (Action w))),
              PartialResultsQueue := map_option (\<lambda>q. []) (PartialResultsQueue (ThreadedState (Action w)))\<rparr>\<rparr>"
      by blast
    then have "ThreadedResult (Action w') = TaskComplete" using Cons.prems by simp
    from completion_polls_finished [OF t(2) this, of b es] t True Cons.prems show ?thesis
      by (simp add: step_def IsReady_def)
  next
    case False
    then have "step b e w = Inr w" using Cons.prems by (simp add: step_def)
    with False Cons show ?thesis by simp
  qed
qed

lemma run_running_outcome:
  assumes "action_inv w0" "InLatentActionManager w0" "ThreadedResult (Action w0) = TaskRunning"
  shows "\<exists>w. run b es w0 = Inr w \<and>
           (if polled_after_return es then finished_outcome b w0 es w else pending_outcome w0 es w) \<and>
           completion_polls b es w0 = (if polled_after_return es then 1 else 0)"
  using assms
proof (induction es arbitrary: w0)
  case Nil
  then show ?case by (simp add: pending_outcome_def)
next
  case (Cons e es)
  note inv = Cons.prems(1) and reg = Cons.prems(2) and running = Cons.prems(3)
  show ?case
  proof (cases e)
    case Tick
    define w1 where "w1 = (drained w0)\<lparr>Effects := Effects w0 @ map (\<lambda>r. Execute (InRequest (Action w0)) r False) (waiting w0)\<rparr>"
    have s: "step b e w0 = Inr w1"
      using Tick_running [OF inv reg running, of b] Tick by (simp add: step_def w1_def)
    have w1: "action_inv w1" "InLatentActionManager w1" "ThreadedResult (Action w1) = TaskRunning"
      "static w1 = static w0" "waiting w1 = []"
      "Effects w1 = Effects w0 @ map (\<lambda>r. Execute (InRequest (Action w0)) r False) (waiting w0)"
      "SuccessOrFailureMemory w1 = SuccessOrFailureMemory w0"
      "ResultsMemory w1 = ResultsMemory w0" "StatusMemory w1 = StatusMemory w0"
      using inv reg running
      by (auto simp: w1_def drained_def action_inv_def queue_inv_def static_def waiting_def split: option.splits)
    from Cons.IH [OF w1(1,2,3)] obtain w where
      r: "run b es w1 = Inr w"
         "if polled_after_return es then finished_outcome b w1 es w else pending_outcome w1 es w"
         "completion_polls b es w1 = (if polled_after_return es then 1 else 0)"
      by blast
    have "if polled_after_return es then finished_outcome b w0 (e # es) w else pending_outcome w0 (e # es) w"
    proof (cases "registered_and_bound (PartialResultsDelegate (Action w0))")
      case True
      show ?thesis
      proof (cases "polled_after_return es")
        case fin: True
        with r(2) obtain ds q v x where
          f: "\<not> InLatentActionManager w" "ThreadedResult (Action w) = TaskComplete"
             "Effects w = Effects w1 @ map (\<lambda>r. Execute (InRequest (Action w1)) r False) ds @
                (if registered_and_bound (PartialResultsDelegate (Action w1))
                 then completion_calls b (InRequest (Action w1)) q else []) @
                [Assign_OutResults (OutResults (Action w1)) v,
                 Assign_OutStatus (OutStatus (Action w1)) x,
                 Assign_OutSuccessOrFailure (OutSuccessOrFailure (Action w1))
                   (if Status x = GAMEKIT_SUCCESS b then OnSuccess else OnFailure),
                 FinishAndTriggerIf True (ExecutionFunction (LatentInfo (Action w1)))
                   (Linkage (LatentInfo (Action w1))) (CallbackTarget (LatentInfo (Action w1)))]"
             "if registered_and_bound (PartialResultsDelegate (Action w1))
              then ds @ q = waiting w1 @ enqueued es else ds = []"
             "SuccessOrFailureMemory w = (SuccessOrFailureMemory w1)(OutSuccessOrFailure (Action w1) :=
                (if Status x = GAMEKIT_SUCCESS b then OnSuccess else OnFailure))"
             "ResultsMemory w = (ResultsMemory w1)(OutResults (Action w1) := v)"
             "StatusMemory w = (StatusMemory w1)(OutStatus (Action w1) := x)"
             "Err (ThreadedState (Action w)) = x"
             "Results (ThreadedState (Action w)) = ResultType_moved_from b v"
          unfolding finished_outcome_def by auto
        have "finished_outcome b w0 (e # es) w"
          unfolding finished_outcome_def
          apply (intro conjI f(1,2))
          apply (rule exI [of _ "waiting w0 @ ds"])
          apply (rule exI [of _ q])
          apply (rule exI [of _ v])
          apply (rule exI [of _ x])
          using f(3-) staticD [OF w1(4)] w1(5-) True Tick
          apply simp
          done
        with fin show ?thesis by simp
      next
        case nofin: False
        with r(2) obtain ds where
          f: "InLatentActionManager w"
             "SuccessOrFailureMemory w = SuccessOrFailureMemory w1"
             "ResultsMemory w = ResultsMemory w1" "StatusMemory w = StatusMemory w1"
             "Effects w = Effects w1 @ map (\<lambda>r. Execute (InRequest (Action w1)) r False) ds"
             "if registered_and_bound (PartialResultsDelegate (Action w1))
              then ds @ waiting w = waiting w1 @ enqueued es else ds = []"
          unfolding pending_outcome_def by auto
        have "pending_outcome w0 (e # es) w"
          unfolding pending_outcome_def
          apply (intro conjI)
              apply (rule f(1))
          using f(2-4) w1(7-) apply simp_all[3]
          apply (rule exI [of _ "waiting w0 @ ds"])
          using f(5-) staticD [OF w1(4)] w1(5-) True Tick
          apply simp
          done
        with nofin show ?thesis by simp
      qed
    next
      case False
      with r(2) staticD [OF w1(4)] w1(5-) Tick unbound_waiting [OF inv False] show ?thesis
        unfolding finished_outcome_def pending_outcome_def
        by (simp split: if_splits)
    qed
    with s r Tick running show ?thesis by (simp add: IsReady_def)
  next
    case Return
    define w1 where "w1 = w0\<lparr>Action := (Action w0)\<lparr>ThreadedResult := TaskComplete\<rparr>\<rparr>"
    have s: "step b e w0 = Inr w1"
      using Return running by (simp add: step_def w1_def)
    have w1: "action_inv w1" "InLatentActionManager w1" "ThreadedResult (Action w1) = TaskComplete"
      "static w1 = static w0" "waiting w1 = waiting w0"
      "Effects w1 = Effects w0"
      "SuccessOrFailureMemory w1 = SuccessOrFailureMemory w0"
      "ResultsMemory w1 = ResultsMemory w0" "StatusMemory w1 = StatusMemory w0"
      using inv reg running
      by (auto simp: w1_def action_inv_def queue_inv_def static_def waiting_def IsValid_def)
    from run_complete_outcome [OF w1(1,2,3), of b es] obtain w where
      r: "run b es w1 = Inr w" "if Tick \<in> set es then finished_outcome b w1 [] w else w = w1"
      by blast
    have "if Tick \<in> set es then finished_outcome b w0 (e # es) w else pending_outcome w0 (e # es) w"
      using r(2) staticD [OF w1(4)] w1(2,5-) Return
      unfolding finished_outcome_def pending_outcome_def
      by (auto split: if_splits)
    with s r Return running completion_polls_complete [OF w1(1,2,3), of b es]
    show ?thesis by (simp add: IsReady_def)
  next
    case (Enqueue x)
    define w1 where "w1 = w0\<lparr>Action := thread_step e (Action w0)\<rparr>"
    have s: "step b e w0 = Inr w1"
      using Enqueue running by (simp add: step_def w1_def)
    have w1: "action_inv w1" "InLatentActionManager w1" "ThreadedResult (Action w1) = TaskRunning"
      "static w1 = static w0"
      "waiting w1 = (if registered_and_bound (PartialResultsDelegate (Action w0)) then waiting w0 @ [x] else [])"
      "Effects w1 = Effects w0"
      "SuccessOrFailureMemory w1 = SuccessOrFailureMemory w0"
      "ResultsMemory w1 = ResultsMemory w0" "StatusMemory w1 = StatusMemory w0"
      using inv reg running Enqueue
      by (auto simp: w1_def action_inv_def queue_inv_def static_def waiting_def split: option.splits)
    from Cons.IH [OF w1(1,2,3)] obtain w where
      r: "run b es w1 = Inr w"
         "if polled_after_return es then finished_outcome b w1 es w else pending_outcome w1 es w"
         "completion_polls b es w1 = (if polled_after_return es then 1 else 0)"
      by blast
    have "if polled_after_return es then finished_outcome b w0 (e # es) w else pending_outcome w0 (e # es) w"
      using r(2) staticD [OF w1(4)] w1(5-) Enqueue
      unfolding finished_outcome_def pending_outcome_def
      by (auto split: if_splits)
    with s r Enqueue running show ?thesis by (simp add: IsReady_def)
  next
    case (FillResults x)
    define w1 where "w1 = w0\<lparr>Action := thread_step e (Action w0)\<rparr>"
    have s: "step b e w0 = Inr w1"
      using FillResults running by (simp add: step_def w1_def)
    have w1: "action_inv w1" "InLatentActionManager w1" "ThreadedResult (Action w1) = TaskRunning"
      "static w1 = static w0" "waiting w1 = waiting w0"
      "Effects w1 = Effects w0"
      "SuccessOrFailureMemory w1 = SuccessOrFailureMemory w0"
      "ResultsMemory w1 = ResultsMemory w0" "StatusMemory w1 = StatusMemory w0"
      using inv reg running FillResults
      by (auto simp: w1_def action_inv_def queue_inv_def static_def waiting_def)
    from Cons.IH [OF w1(1,2,3)] obtain w where
      r: "run b es w1 = Inr w"
         "if polled_after_return es then finished_outcome b w1 es w else pending_outcome w1 es w"
         "completion_polls b es w1 = (if polled_after_return es then 1 else 0)"
      by blast
    have "if polled_after_return es then finished_outcome b w0 (e # es) w else pending_outcome w0 (e # es) w"
      using r(2) staticD [OF w1(4)] w1(5-) FillResults
      unfolding finished_outcome_def pending_outcome_def
      by (auto split: if_splits)
    with s r FillResults running show ?thesis by (simp add: IsReady_def)
  next
    case (FillErr x)
    define w1 where "w1 = w0\<lparr>Action := thread_step e (Action w0)\<rparr>"
    have s: "step b e w0 = Inr w1"
      using FillErr running by (simp add: step_def w1_def)
    have w1: "action_inv w1" "InLatentActionManager w1" "ThreadedResult (Action w1) = TaskRunning"
      "static w1 = static w0" "waiting w1 = waiting w0"
      "Effects w1 = Effects w0"
      "SuccessOrFailureMemory w1 = SuccessOrFailureMemory w0"
      "ResultsMemory w1 = ResultsMemory w0" "StatusMemory w1 = StatusMemory w0"
      using inv reg running FillErr
      by (auto simp: w1_def action_inv_def queue_inv_def static_def waiting_def)
    from Cons.IH [OF w1(1,2,3)] obtain w where
      r: "run b es w1 = Inr w"
         "if polled_after_return es then finished_outcome b w1 es w else pending_outcome w1 es w"
         "completion_polls b es w1 = (if polled_after_return es then 1 else 0)"
      by blast
    have "if polled_after_return es then finished_outcome b w0 (e # es) w else pending_outcome w0 (e # es) w"
      using r(2) staticD [OF w1(4)] w1(5-) FillErr
      unfolding finished_outcome_def pending_outcome_def
      by (auto split: if_splits)
    with s r FillErr running show ?thesis by (simp add: IsReady_def)
  qed
qed

lemma make_launch:
  assumes "InternalMakeAwsGameKitThreadedAction b cs mSF mSt mRes info req sfp stp resp dlg = Inr w0"
  shows "action_inv (launch w0) \<and> InLatentActionManager (launch w0) \<and>
         ThreadedResult (Action (launch w0)) = TaskRunning \<and>
         Effects (launch w0) = [] \<and> waiting (launch w0) = [] \<and>
         PartialResultsDelegate (Action (launch w0)) = dlg \<and>
         InRequest (Action (launch w0)) = req \<and>
         LatentInfo (Action (launch w0)) = info \<and>
         SuccessOrFailureMemory (launch w0) = mSF \<and>
         StatusMemory (launch w0) = mSt \<and>
         ResultsMemory (launch w0) = mRes \<and>
         InternalAwsGameKitThreadedActionSafeOutputRef (DO_CHECK b) cs sfp =
           Inr (OutSuccessOrFailure (Action (launch w0))) \<and>
         InternalAwsGameKitThreadedActionSafeOutputRef (DO_CHECK b) cs stp =
           Inr (OutStatus (Action (launch w0))) \<and>
         InternalAwsGameKitThreadedActionSafeOutputRef (DO_CHECK b) cs resp =
           Inr (OutResults (Action (launch w0)))"
  using assms
  by (cases dlg)
     (auto simp: InternalMakeAwsGameKitThreadedAction_def TAwsGameKitInternalThreadedAction_def
        launch_def LaunchThreadedWork_def action_inv_def queue_inv_def IsValid_def waiting_def
        split: sum.splits if_splits)

lemma make_unlaunched:
  assumes "InternalMakeAwsGameKitThreadedAction b cs mSF mSt mRes info req sfp stp resp dlg = Inr w0"
  shows "ThreadedResult (Action w0) = NoFutureState \<and>
         (PartialResultsQueue (ThreadedState (Action w0)) \<noteq> None) = registered_and_bound dlg"
  using assms
  by (cases dlg)
     (auto simp: InternalMakeAwsGameKitThreadedAction_def TAwsGameKitInternalThreadedAction_def
        split: sum.splits if_splits)

lemma SafeOutputRef_cases:
  assumes "InternalAwsGameKitThreadedActionSafeOutputRef dc cs a = Inr r"
  shows "r = (if in_persistent_frame cs a then Addr a else StaticJunkVarForIgnoredOutput)"
  using assms
  by (auto simp: InternalAwsGameKitThreadedActionSafeOutputRef_def in_persistent_frame_def
      split: if_splits)

lemma launched_outcome:
  assumes "InternalMakeAwsGameKitThreadedAction b cs mSF mSt mRes info req sfp stp resp dlg = Inr w0"
    and "run b sched (launch w0) = Inr w"
  shows "(if polled_after_return sched then finished_outcome b (launch w0) sched w
          else pending_outcome (launch w0) sched w) \<and>
         completion_polls b sched (launch w0) = (if polled_after_return sched then 1 else 0)"
proof -
  note l = make_launch [OF assms(1)]
  from l have "action_inv (launch w0)" "InLatentActionManager (launch w0)"
    "ThreadedResult (Action (launch w0)) = TaskRunning" by simp_all
  from run_running_outcome [OF this, of b sched] assms(2) show ?thesis by auto
qed

lemma final_calls_once:
  "length (filter is_final_Execute (completion_calls b req q :: ('req, 'res, 'st) effect list)) = 1"
  by (simp add: completion_calls_def filter_map o_def)




subsection \<open>The concrete action, evaluated\<close>

lemmas model_defs =
  InternalMakeAwsGameKitThreadedAction_def TAwsGameKitInternalThreadedAction_def
  InternalAwsGameKitThreadedActionSafeOutputRef_def ExtremelyLargeBPFrameSize_def
  NearbyStackAddressLimit_def launch_def LaunchThreadedWork_def step_def TickLatentAction_def
  UpdateOperation_def DispatchPartialResults_def FinishAndTriggerIf_response_def
  move_Results_def copy_Status_def select_pin_def finish_def IsValid_def IsReady_def Let_def

lemmas example_defs =
  example_build_def example_callsite_def example_info_def example_action_def example_made_def
  example_schedule_def example_running_def example_returned_def example_finished_def example_returned_at_once_def example_finished_at_once_def

lemma example_make:
  "InternalMakeAwsGameKitThreadedAction example_build example_callsite
     (\<lambda>a. OnSuccess) (\<lambda>a. \<lparr>Status = 0\<rparr>) (\<lambda>a. 0) example_info 5 4096 4100 1000100 (Delegate True) =
   Inr example_made"
  by (simp add: model_defs example_defs)

lemma example_run_running:
  "run example_build example_schedule (launch example_made) = Inr example_running"
  by (simp add: model_defs example_defs)

lemma example_run_returned:
  "run example_build (example_schedule @ [Return]) (launch example_made) = Inr example_returned"
  by (simp add: model_defs example_defs)

lemma example_run_finished:
  "run example_build (example_schedule @ [Return, Tick, Tick]) (launch example_made) = Inr example_finished"
  by (simp add: model_defs example_defs)

lemma example_run_returned_at_once:
  "run example_build [Return] (launch example_made) = Inr example_returned_at_once"
  by (simp add: model_defs example_defs)

lemma example_run_finished_at_once:
  "run example_build [Return, Tick] (launch example_made) = Inr example_finished_at_once"
  by (simp add: model_defs example_defs)

lemma example_make_unregistered:
  "InternalMakeAwsGameKitThreadedAction example_build example_callsite
     (\<lambda>a. OnSuccess) (\<lambda>a. \<lparr>Status = 0\<rparr>) (\<lambda>a. 0) example_info 5 4096 4100 1000100 FNoopStruct =
   Inr (example_made\<lparr>Action := (example_action \<lparr>Status = 0\<rparr> 0 [] NoFutureState)
          \<lparr>ThreadedState := \<lparr>Err = \<lparr>Status = 0\<rparr>, Results = 0, PartialResultsQueue = None\<rparr>,
           PartialResultsDelegate := FNoopStruct\<rparr>\<rparr>)"
  by (simp add: model_defs example_defs)





section \<open>Library name resolution\<close>

text \<open>
  Claim C6. \<open>getLibraryFilename\<close> returns the basename \<open>aws-gamekit-authentication\<close> on
  Windows, \<open>libaws-gamekit-authentication\<close> on Mac and the empty string on every other
  platform; no returned name carries a file extension (it contains no dot).
\<close>

theorem getLibraryFilename_per_platform:
  "getLibraryFilename Windows = ''aws-gamekit-authentication'' \<and>
   getLibraryFilename Mac = ''libaws-gamekit-authentication'' \<and>
   (\<forall>p. p \<noteq> Windows \<and> p \<noteq> Mac \<longrightarrow> getLibraryFilename p = '''') \<and>
   (\<forall>p. CHR ''.'' \<notin> set (getLibraryFilename p))"
  by (simp add: getLibraryFilename_def PLATFORM_WINDOWS_def PLATFORM_MAC_def)

theorem getLibraryFilename_per_platform_witness:
  "Linux \<noteq> Windows \<and> Linux \<noteq> Mac \<and> getLibraryFilename Linux = '''' \<and>
   getLibraryFilename IOS = '''' \<and> getLibraryFilename Android = ''''"
  using getLibraryFilename_per_platform by simp

section \<open>A poll of the action\<close>

text \<open>
  Claim C1. Take any action made by \<open>InternalMakeAwsGameKitThreadedAction\<close> and launched, and
  any world \<open>w\<close> a schedule of thread steps and polls leads to. A poll of \<open>w\<close> that finds
  the future not ready hands the waiting partial results to the delegate, each with the flag
  false, leaves the queue empty and changes nothing else: the response, the memory and the
  rest of the action are as before. A poll that finds the future ready first hands over the
  waiting partial results, then assigns \<open>OutResults\<close>, then \<open>OutStatus\<close>, then
  \<open>OutSuccessOrFailure\<close>, then calls \<open>FinishAndTriggerIf\<close> with true: the effects are
  appended in this order, the three memories hold the values, the response asks for removal.
\<close>

theorem UpdateOperation_poll:
  assumes "InternalMakeAwsGameKitThreadedAction b cs mSF mSt mRes info req sfp stp resp dlg = Inr w0"
    and "run b sched (launch w0) = Inr w"
  shows "(\<not> IsReady (ThreadedResult (Action w)) \<longrightarrow>
            UpdateOperation b w R =
              Inr (w\<lparr>Action := (Action w)\<lparr>ThreadedState := (ThreadedState (Action w))
                       \<lparr>PartialResultsQueue :=
                          map_option (\<lambda>q. []) (PartialResultsQueue (ThreadedState (Action w)))\<rparr>\<rparr>,
                     Effects := Effects w @ map (\<lambda>r. Execute req r False) (waiting w)\<rparr>, R)) \<and>
         (IsReady (ThreadedResult (Action w)) \<longrightarrow>
            (\<exists>w'. UpdateOperation b w R =
                     Inr (w', FinishAndTriggerIf_response True (ExecutionFunction info)
                                (Linkage info) (CallbackTarget info) R) \<and>
               Effects w' = Effects w @
                 (if registered_and_bound dlg
                  then map (\<lambda>r. Execute req r False) (butlast (waiting w)) @
                       [Execute req (if waiting w = [] then ResultType_default b
                                     else last (waiting w)) True]
                  else []) @
                 [Assign_OutResults (OutResults (Action w)) (Results (ThreadedState (Action w))),
                  Assign_OutStatus (OutStatus (Action w)) (Err (ThreadedState (Action w))),
                  Assign_OutSuccessOrFailure (OutSuccessOrFailure (Action w))
                    (if Status (Err (ThreadedState (Action w))) = GAMEKIT_SUCCESS b
                     then OnSuccess else OnFailure),
                  FinishAndTriggerIf True (ExecutionFunction info) (Linkage info)
                    (CallbackTarget info)] \<and>
               waiting w' = [] \<and>
               ResultsMemory w' =
                 (ResultsMemory w)(OutResults (Action w) := Results (ThreadedState (Action w))) \<and>
               StatusMemory w' =
                 (StatusMemory w)(OutStatus (Action w) := Err (ThreadedState (Action w))) \<and>
               SuccessOrFailureMemory w' =
                 (SuccessOrFailureMemory w)(OutSuccessOrFailure (Action w) :=
                    (if Status (Err (ThreadedState (Action w))) = GAMEKIT_SUCCESS b
                     then OnSuccess else OnFailure))))"
proof -
  note l = make_launch [OF assms(1)]
  from l have inv0: "action_inv (launch w0)" by simp
  from run_action_inv [OF inv0, of b sched] assms(2)
  have inv: "action_inv w" and st: "static w = static (launch w0)" by auto
  from staticD [OF st] l
  have f: "PartialResultsDelegate (Action w) = dlg" "InRequest (Action w) = req"
    "LatentInfo (Action w) = info" by simp_all
  show ?thesis
  proof (intro conjI impI)
    assume nr: "\<not> IsReady (ThreadedResult (Action w))"
    from UpdateOperation_incomplete [OF inv nr, of b R] f
    show "UpdateOperation b w R =
              Inr (w\<lparr>Action := (Action w)\<lparr>ThreadedState := (ThreadedState (Action w))
                       \<lparr>PartialResultsQueue :=
                          map_option (\<lambda>q. []) (PartialResultsQueue (ThreadedState (Action w)))\<rparr>\<rparr>,
                     Effects := Effects w @ map (\<lambda>r. Execute req r False) (waiting w)\<rparr>, R)"
      by (simp add: drained_def)
  next
    assume r: "IsReady (ThreadedResult (Action w))"
    from UpdateOperation_complete [OF inv r, of b R] obtain w' where
      u: "UpdateOperation b w R =
            Inr (w', FinishAndTriggerIf_response True (ExecutionFunction (LatentInfo (Action w)))
                       (Linkage (LatentInfo (Action w))) (CallbackTarget (LatentInfo (Action w))) R)"
        "Effects w' = Effects w @
            (if registered_and_bound (PartialResultsDelegate (Action w))
             then completion_calls b (InRequest (Action w)) (waiting w) else []) @
            completion_effects b w"
        "Action w' = (Action w)\<lparr>ThreadedState := (ThreadedState (Action w))
             \<lparr>Results := ResultType_moved_from b (Results (ThreadedState (Action w))),
              PartialResultsQueue := map_option (\<lambda>q. []) (PartialResultsQueue (ThreadedState (Action w)))\<rparr>\<rparr>"
        "ResultsMemory w' = (ResultsMemory w)(OutResults (Action w) := Results (ThreadedState (Action w)))"
        "StatusMemory w' = (StatusMemory w)(OutStatus (Action w) := Err (ThreadedState (Action w)))"
        "SuccessOrFailureMemory w' = (SuccessOrFailureMemory w)(OutSuccessOrFailure (Action w) :=
             (if Status (Err (ThreadedState (Action w))) = GAMEKIT_SUCCESS b then OnSuccess else OnFailure))"
      by blast
    have "waiting w' = []"
      by (simp add: waiting_def u(3) split: option.splits)
    with u f show "\<exists>w'. UpdateOperation b w R =
                     Inr (w', FinishAndTriggerIf_response True (ExecutionFunction info)
                                (Linkage info) (CallbackTarget info) R) \<and>
               Effects w' = Effects w @
                 (if registered_and_bound dlg
                  then map (\<lambda>r. Execute req r False) (butlast (waiting w)) @
                       [Execute req (if waiting w = [] then ResultType_default b
                                     else last (waiting w)) True]
                  else []) @
                 [Assign_OutResults (OutResults (Action w)) (Results (ThreadedState (Action w))),
                  Assign_OutStatus (OutStatus (Action w)) (Err (ThreadedState (Action w))),
                  Assign_OutSuccessOrFailure (OutSuccessOrFailure (Action w))
                    (if Status (Err (ThreadedState (Action w))) = GAMEKIT_SUCCESS b
                     then OnSuccess else OnFailure),
                  FinishAndTriggerIf True (ExecutionFunction info) (Linkage info)
                    (CallbackTarget info)] \<and>
               waiting w' = [] \<and>
               ResultsMemory w' =
                 (ResultsMemory w)(OutResults (Action w) := Results (ThreadedState (Action w))) \<and>
               StatusMemory w' =
                 (StatusMemory w)(OutStatus (Action w) := Err (ThreadedState (Action w))) \<and>
               SuccessOrFailureMemory w' =
                 (SuccessOrFailureMemory w)(OutSuccessOrFailure (Action w) :=
                    (if Status (Err (ThreadedState (Action w))) = GAMEKIT_SUCCESS b
                     then OnSuccess else OnFailure))"
      by (simp add: completion_calls_def completion_effects_def Let_def)
  qed
qed

theorem UpdateOperation_poll_witness:
  "run example_build example_schedule (launch example_made) = Inr example_running \<and>
   \<not> IsReady (ThreadedResult (Action example_running)) \<and>
   UpdateOperation example_build example_running \<lparr>bRemoveAction = False, LinksToExecute = []\<rparr> =
     Inr (example_running\<lparr>Action := example_action \<lparr>Status = 9\<rparr> 21 [] TaskRunning,
            Effects := [Execute 5 11 False, Execute 5 12 False, Execute 5 13 False]\<rparr>,
          \<lparr>bRemoveAction = False, LinksToExecute = []\<rparr>) \<and>
   run example_build (example_schedule @ [Return]) (launch example_made) = Inr example_returned \<and>
   IsReady (ThreadedResult (Action example_returned)) \<and>
   (\<exists>w'. UpdateOperation example_build example_returned \<lparr>bRemoveAction = False, LinksToExecute = []\<rparr> =
            Inr (w', \<lparr>bRemoveAction = True, LinksToExecute = [(''ExecuteUbergraph'', 1, 3)]\<rparr>) \<and>
          Effects w' =
            [Execute 5 11 False, Execute 5 12 False, Execute 5 13 True,
             Assign_OutResults StaticJunkVarForIgnoredOutput 21,
             Assign_OutStatus (Addr 4100) \<lparr>Status = 9\<rparr>,
             Assign_OutSuccessOrFailure (Addr 4096) OnFailure,
             FinishAndTriggerIf True ''ExecuteUbergraph'' 1 3])"
proof -
  let ?R = "\<lparr>bRemoveAction = False, LinksToExecute = []\<rparr>"
  have nr: "\<not> IsReady (ThreadedResult (Action example_running))"
    and r: "IsReady (ThreadedResult (Action example_returned))"
    by (simp_all add: example_defs IsReady_def)
  from UpdateOperation_poll [OF example_make example_run_running, of ?R] nr
  have 1: "UpdateOperation example_build example_running ?R =
     Inr (example_running\<lparr>Action := example_action \<lparr>Status = 9\<rparr> 21 [] TaskRunning,
            Effects := [Execute 5 11 False, Execute 5 12 False, Execute 5 13 False]\<rparr>, ?R)"
    by (simp add: example_defs waiting_def)
  from UpdateOperation_poll [OF example_make example_run_returned, of ?R] r
  obtain w' where "UpdateOperation example_build example_returned ?R =
       Inr (w', FinishAndTriggerIf_response True (ExecutionFunction example_info)
                  (Linkage example_info) (CallbackTarget example_info) ?R)"
    "Effects w' = Effects example_returned @
                 (if registered_and_bound (Delegate True)
                  then map (\<lambda>r. Execute 5 r False) (butlast (waiting example_returned)) @
                       [Execute 5 (if waiting example_returned = [] then ResultType_default example_build
                                     else last (waiting example_returned)) True]
                  else []) @
                 [Assign_OutResults (OutResults (Action example_returned)) (Results (ThreadedState (Action example_returned))),
                  Assign_OutStatus (OutStatus (Action example_returned)) (Err (ThreadedState (Action example_returned))),
                  Assign_OutSuccessOrFailure (OutSuccessOrFailure (Action example_returned))
                    (if Status (Err (ThreadedState (Action example_returned))) = GAMEKIT_SUCCESS example_build
                     then OnSuccess else OnFailure),
                  FinishAndTriggerIf True (ExecutionFunction example_info) (Linkage example_info)
                    (CallbackTarget example_info)]"
    by blast
  then have 2: "\<exists>w'. UpdateOperation example_build example_returned ?R =
            Inr (w', \<lparr>bRemoveAction = True, LinksToExecute = [(''ExecuteUbergraph'', 1, 3)]\<rparr>) \<and>
          Effects w' =
            [Execute 5 11 False, Execute 5 12 False, Execute 5 13 True,
             Assign_OutResults StaticJunkVarForIgnoredOutput 21,
             Assign_OutStatus (Addr 4100) \<lparr>Status = 9\<rparr>,
             Assign_OutSuccessOrFailure (Addr 4096) OnFailure,
             FinishAndTriggerIf True ''ExecuteUbergraph'' 1 3]"
    by (simp add: example_defs waiting_def FinishAndTriggerIf_response_def)
  from example_run_running example_run_returned nr r 1 2 show ?thesis by blast
qed

section \<open>Delivery of partial results\<close>

text \<open>
  Claim C2. With a bound delegate: before the completion poll, the calls of the delegate made so
  far, followed by the results still waiting, are the enqueued results in enqueue order,
  each with the flag false. After the completion poll the calls of the delegate are the
  enqueued results in enqueue order, the flag true on the last call only: either the last
  enqueued result carries it, or (when none was waiting at the completion poll) one more call
  with the default result does.
\<close>

theorem partial_results_delivered_in_order:
  assumes "InternalMakeAwsGameKitThreadedAction b cs mSF mSt mRes info req sfp stp resp (Delegate True) = Inr w0"
    and "run b sched (launch w0) = Inr w"
  shows "(\<not> polled_after_return sched \<longrightarrow>
            Effects w @ map (\<lambda>r. Execute req r False) (waiting w) =
              map (\<lambda>r. Execute req r False) (enqueued sched)) \<and>
         (polled_after_return sched \<longrightarrow>
            (enqueued sched \<noteq> [] \<and>
             filter is_Execute (Effects w) =
               map (\<lambda>r. Execute req r False) (butlast (enqueued sched)) @
               [Execute req (last (enqueued sched)) True]) \<or>
            filter is_Execute (Effects w) =
               map (\<lambda>r. Execute req r False) (enqueued sched) @
               [Execute req (ResultType_default b) True])"
proof -
  note l = make_launch [OF assms(1)]
  note o = launched_outcome [OF assms]
  show ?thesis
  proof (intro conjI impI)
    assume "\<not> polled_after_return sched"
    with o have "pending_outcome (launch w0) sched w" by simp
    with l show "Effects w @ map (\<lambda>r. Execute req r False) (waiting w) =
              map (\<lambda>r. Execute req r False) (enqueued sched)"
      unfolding pending_outcome_def
      by (auto simp flip: map_append)
  next
    assume "polled_after_return sched"
    with o have "finished_outcome b (launch w0) sched w" by simp
    with l obtain ds q where
      e: "filter is_Execute (Effects w) = map (\<lambda>r. Execute req r False) ds @ completion_calls b req q"
         "ds @ q = enqueued sched"
      unfolding finished_outcome_def
      by (auto simp: completion_calls_def filter_map o_def)
    show "(enqueued sched \<noteq> [] \<and>
             filter is_Execute (Effects w) =
               map (\<lambda>r. Execute req r False) (butlast (enqueued sched)) @
               [Execute req (last (enqueued sched)) True]) \<or>
            filter is_Execute (Effects w) =
               map (\<lambda>r. Execute req r False) (enqueued sched) @
               [Execute req (ResultType_default b) True]"
    proof (cases "q = []")
      case True
      with e show ?thesis by (simp add: completion_calls_def)
    next
      case False
      with e(2) have "enqueued sched \<noteq> []" "butlast (enqueued sched) = ds @ butlast q"
        "last (enqueued sched) = last q"
        by (auto simp: butlast_append last_append simp flip: e(2))
      with e(1) False show ?thesis by (simp add: completion_calls_def)
    qed
  qed
qed

theorem partial_results_delivered_in_order_witness:
  "run example_build example_schedule (launch example_made) = Inr example_running \<and>
   \<not> polled_after_return example_schedule \<and>
   enqueued example_schedule = [11, 12, 13] \<and>
   Effects example_running @ map (\<lambda>r. Execute 5 r False) (waiting example_running) =
     [Execute 5 11 False, Execute 5 12 False, Execute 5 13 False] \<and>
   run example_build (example_schedule @ [Return, Tick, Tick]) (launch example_made) =
     Inr example_finished \<and>
   polled_after_return (example_schedule @ [Return, Tick, Tick]) \<and>
   enqueued (example_schedule @ [Return, Tick, Tick]) = [11, 12, 13] \<and>
   filter is_Execute (Effects example_finished) =
     [Execute 5 11 False, Execute 5 12 False, Execute 5 13 True] \<and>
   run example_build [Return, Tick] (launch example_made) = Inr example_finished_at_once \<and>
   polled_after_return [Return, Tick :: (nat, nat) step] \<and>
   enqueued [Return, Tick :: (nat, nat) step] = [] \<and>
   filter is_Execute (Effects example_finished_at_once) = [Execute 5 0 True]"
proof -
  have s: "\<not> polled_after_return example_schedule" "enqueued example_schedule = [11, 12, 13]"
    "polled_after_return (example_schedule @ [Return, Tick, Tick])"
    "enqueued (example_schedule @ [Return, Tick, Tick]) = [11, 12, 13]"
    "polled_after_return [Return, Tick :: (nat, nat) step]"
    "enqueued [Return, Tick :: (nat, nat) step] = []"
    by (simp_all add: example_schedule_def)
  from partial_results_delivered_in_order [OF example_make example_run_running] s
  have 1: "Effects example_running @ map (\<lambda>r. Execute 5 r False) (waiting example_running) =
     [Execute 5 11 False, Execute 5 12 False, Execute 5 13 False]" by simp
  from partial_results_delivered_in_order [OF example_make example_run_finished] s
  have 2: "filter is_Execute (Effects example_finished) =
     [Execute 5 11 False, Execute 5 12 False, Execute 5 13 True]"
    by (simp add: example_defs)
  from partial_results_delivered_in_order [OF example_make example_run_finished_at_once] s
  have 3: "filter is_Execute (Effects example_finished_at_once) = [Execute 5 0 True]"
    by (simp add: example_defs)
  from s 1 2 3 example_run_running example_run_finished example_run_finished_at_once
  show ?thesis by blast
qed

section \<open>The final result is observed once\<close>




section \<open>Success or failure from the status code\<close>

text \<open>
  Claim C4. A poll of a made and launched action that finds the future ready returns, and after it
  the pin output holds \<open>OnSuccess\<close> exactly when the stored status code equals
  \<open>GAMEKIT_SUCCESS\<close> and \<open>OnFailure\<close> exactly when it differs; the status output holds the
  stored operation result. The two outputs are the caller's variables when these lie in the
  persistent frame.
\<close>

theorem success_or_failure_from_status:
  assumes "InternalMakeAwsGameKitThreadedAction b cs mSF mSt mRes info req sfp stp resp dlg = Inr w0"
    and "run b sched (launch w0) = Inr w"
    and "IsReady (ThreadedResult (Action w))"
  shows "\<exists>w' R'. UpdateOperation b w R = Inr (w', R') \<and>
           (SuccessOrFailureMemory w' (OutSuccessOrFailure (Action w)) = OnSuccess) =
             (Status (Err (ThreadedState (Action w))) = GAMEKIT_SUCCESS b) \<and>
           (SuccessOrFailureMemory w' (OutSuccessOrFailure (Action w)) = OnFailure) =
             (Status (Err (ThreadedState (Action w))) \<noteq> GAMEKIT_SUCCESS b) \<and>
           StatusMemory w' (OutStatus (Action w)) = Err (ThreadedState (Action w)) \<and>
           (in_persistent_frame cs sfp \<longrightarrow> OutSuccessOrFailure (Action w) = Addr sfp) \<and>
           (in_persistent_frame cs stp \<longrightarrow> OutStatus (Action w) = Addr stp)"
proof -
  note l = make_launch [OF assms(1)]
  from l have inv0: "action_inv (launch w0)" by simp
  from run_action_inv [OF inv0, of b sched] assms(2)
  have inv: "action_inv w" and st: "static w = static (launch w0)" by auto
  from staticD [OF st] l
  have "InternalAwsGameKitThreadedActionSafeOutputRef (DO_CHECK b) cs sfp =
           Inr (OutSuccessOrFailure (Action w))"
       "InternalAwsGameKitThreadedActionSafeOutputRef (DO_CHECK b) cs stp =
           Inr (OutStatus (Action w))"
    by simp_all
  from this [THEN SafeOutputRef_cases]
  have refs: "in_persistent_frame cs sfp \<longrightarrow> OutSuccessOrFailure (Action w) = Addr sfp"
    "in_persistent_frame cs stp \<longrightarrow> OutStatus (Action w) = Addr stp"
    by simp_all
  from UpdateOperation_complete [OF inv assms(3), of b R] obtain w' R' where
    "UpdateOperation b w R = Inr (w', R')"
    "StatusMemory w' = (StatusMemory w)(OutStatus (Action w) := Err (ThreadedState (Action w)))"
    "SuccessOrFailureMemory w' = (SuccessOrFailureMemory w)(OutSuccessOrFailure (Action w) :=
             (if Status (Err (ThreadedState (Action w))) = GAMEKIT_SUCCESS b then OnSuccess else OnFailure))"
    by blast
  with refs show ?thesis by simp
qed

theorem success_or_failure_from_status_witness:
  "run example_build (example_schedule @ [Return]) (launch example_made) = Inr example_returned \<and>
   IsReady (ThreadedResult (Action example_returned)) \<and>
   Status (Err (ThreadedState (Action example_returned))) \<noteq> GAMEKIT_SUCCESS example_build \<and>
   (\<exists>w' R'. UpdateOperation example_build example_returned
              \<lparr>bRemoveAction = False, LinksToExecute = []\<rparr> = Inr (w', R') \<and>
      SuccessOrFailureMemory w' (Addr 4096) = OnFailure \<and>
      StatusMemory w' (Addr 4100) = \<lparr>Status = 9\<rparr>) \<and>
   run example_build [Return] (launch example_made) = Inr example_returned_at_once \<and>
   IsReady (ThreadedResult (Action example_returned_at_once)) \<and>
   Status (Err (ThreadedState (Action example_returned_at_once))) = GAMEKIT_SUCCESS example_build \<and>
   (\<exists>w' R'. UpdateOperation example_build example_returned_at_once
              \<lparr>bRemoveAction = False, LinksToExecute = []\<rparr> = Inr (w', R') \<and>
      SuccessOrFailureMemory w' (Addr 4096) = OnSuccess \<and>
      StatusMemory w' (Addr 4100) = \<lparr>Status = 0\<rparr>) \<and>
   in_persistent_frame example_callsite 4096 \<and> in_persistent_frame example_callsite 4100"
proof -
  let ?R = "\<lparr>bRemoveAction = False, LinksToExecute = []\<rparr>"
  have r: "IsReady (ThreadedResult (Action example_returned))"
    "IsReady (ThreadedResult (Action example_returned_at_once))"
    "Status (Err (ThreadedState (Action example_returned))) \<noteq> GAMEKIT_SUCCESS example_build"
    "Status (Err (ThreadedState (Action example_returned_at_once))) = GAMEKIT_SUCCESS example_build"
    "in_persistent_frame example_callsite 4096" "in_persistent_frame example_callsite 4100"
    by (simp_all add: example_defs IsReady_def in_persistent_frame_def)
  have o: "OutSuccessOrFailure (Action example_returned) = Addr 4096"
    "OutStatus (Action example_returned) = Addr 4100"
    "Err (ThreadedState (Action example_returned)) = \<lparr>Status = 9\<rparr>"
    "OutSuccessOrFailure (Action example_returned_at_once) = Addr 4096"
    "OutStatus (Action example_returned_at_once) = Addr 4100"
    "Err (ThreadedState (Action example_returned_at_once)) = \<lparr>Status = 0\<rparr>"
    by (simp_all add: example_defs)
  from success_or_failure_from_status [OF example_make example_run_returned r(1), of ?R]
  obtain w' R' where "UpdateOperation example_build example_returned ?R = Inr (w', R')"
    "(SuccessOrFailureMemory w' (OutSuccessOrFailure (Action example_returned)) = OnFailure) =
       (Status (Err (ThreadedState (Action example_returned))) \<noteq> GAMEKIT_SUCCESS example_build)"
    "StatusMemory w' (OutStatus (Action example_returned)) =
       Err (ThreadedState (Action example_returned))"
    by blast
  with r(3) have 1: "\<exists>w' R'. UpdateOperation example_build example_returned ?R = Inr (w', R') \<and>
      SuccessOrFailureMemory w' (Addr 4096) = OnFailure \<and>
      StatusMemory w' (Addr 4100) = \<lparr>Status = 9\<rparr>"
    by (simp add: o)
  from success_or_failure_from_status [OF example_make example_run_returned_at_once r(2), of ?R]
  obtain w' R' where "UpdateOperation example_build example_returned_at_once ?R = Inr (w', R')"
    "(SuccessOrFailureMemory w' (OutSuccessOrFailure (Action example_returned_at_once)) = OnSuccess) =
       (Status (Err (ThreadedState (Action example_returned_at_once))) = GAMEKIT_SUCCESS example_build)"
    "StatusMemory w' (OutStatus (Action example_returned_at_once)) =
       Err (ThreadedState (Action example_returned_at_once))"
    by blast
  with r(4) have 2: "\<exists>w' R'. UpdateOperation example_build example_returned_at_once ?R = Inr (w', R') \<and>
      SuccessOrFailureMemory w' (Addr 4096) = OnSuccess \<and>
      StatusMemory w' (Addr 4100) = \<lparr>Status = 0\<rparr>"
    by (simp add: o)
  from r 1 2 example_run_returned example_run_returned_at_once show ?thesis by blast
qed

section \<open>The queue exists exactly for a bound delegate\<close>

text \<open>
  Claim C5. The constructor allocates \<open>PartialResultsQueue\<close> if and only if a partial-results
  delegate is registered and bound (not for \<open>FNoopStruct\<close>, not for an unbound delegate), and
  after launch every schedule of thread steps and polls runs without failure and leaves both
  the delegate and the presence of the queue as they were.
\<close>

theorem queue_allocated_iff_bound:
  assumes "InternalMakeAwsGameKitThreadedAction b cs mSF mSt mRes info req sfp stp resp dlg = Inr w0"
  shows "(PartialResultsQueue (ThreadedState (Action w0)) \<noteq> None) = registered_and_bound dlg \<and>
         (\<exists>w. run b sched (launch w0) = Inr w \<and>
              PartialResultsDelegate (Action w) = dlg \<and>
              (PartialResultsQueue (ThreadedState (Action w)) \<noteq> None) = registered_and_bound dlg)"
proof -
  note l = make_launch [OF assms(1)]
  from l have inv0: "action_inv (launch w0)" by simp
  from run_action_inv [OF inv0, of b sched] obtain w where
    w: "run b sched (launch w0) = Inr w" "action_inv w" "static w = static (launch w0)" by blast
  from staticD [OF w(3)] l have "PartialResultsDelegate (Action w) = dlg" by simp
  with w make_unlaunched [OF assms] show ?thesis
    by (simp add: action_inv_def queue_inv_def)
qed

theorem queue_allocated_iff_bound_witness:
  "InternalMakeAwsGameKitThreadedAction example_build example_callsite
     (\<lambda>a. OnSuccess) (\<lambda>a. \<lparr>Status = 0\<rparr>) (\<lambda>a. 0) example_info 5 4096 4100 1000100 (Delegate True) =
     Inr example_made \<and>
   registered_and_bound (Delegate True) \<and>
   PartialResultsQueue (ThreadedState (Action example_made)) \<noteq> None \<and>
   (\<exists>w. run example_build example_schedule (launch example_made) = Inr w \<and>
        PartialResultsQueue (ThreadedState (Action w)) \<noteq> None) \<and>
   \<not> registered_and_bound FNoopStruct \<and>
   (\<exists>w0. InternalMakeAwsGameKitThreadedAction example_build example_callsite
     (\<lambda>a. OnSuccess) (\<lambda>a. \<lparr>Status = 0\<rparr>) (\<lambda>a. 0) example_info (5::nat) 4096 4100 1000100 FNoopStruct =
     Inr w0 \<and> PartialResultsQueue (ThreadedState (Action w0)) = None \<and>
     (\<exists>w. run example_build example_schedule (launch w0) = Inr w \<and>
        PartialResultsQueue (ThreadedState (Action w)) = None))"
  using queue_allocated_iff_bound [OF example_make, of example_schedule]
    queue_allocated_iff_bound [OF example_make_unregistered, of example_schedule]
    example_make example_make_unregistered
  by auto

section \<open>The check of the task handle\<close>

text \<open>
  Claim C7. With checks compiled in, \<open>UpdateOperation\<close> on an action whose \<open>ThreadedResult\<close> is not
  valid fails with the check of line 117, as it does on a made action that was never
  launched. Once \<open>LaunchThreadedWork\<close> was called on the made action, every schedule runs
  without failure, the handle stays valid, and a poll of the world reached never fails with
  that check.
\<close>

theorem ThreadedResult_check_unreachable_after_launch:
  assumes "InternalMakeAwsGameKitThreadedAction b cs mSF mSt mRes info req sfp stp resp dlg = Inr w0"
  shows "(DO_CHECK b \<and> \<not> IsValid (ThreadedResult (Action v)) \<longrightarrow>
            UpdateOperation b v R = Inl check_ThreadedResult_IsValid) \<and>
         (DO_CHECK b \<longrightarrow> UpdateOperation b w0 R = Inl check_ThreadedResult_IsValid) \<and>
         (\<exists>w. run b sched (launch w0) = Inr w \<and> IsValid (ThreadedResult (Action w)) \<and>
              UpdateOperation b w R \<noteq> Inl check_ThreadedResult_IsValid)"
proof -
  note l = make_launch [OF assms(1)]
  from l have inv0: "action_inv (launch w0)" by simp
  from run_action_inv [OF inv0, of b sched] obtain w where
    w: "run b sched (launch w0) = Inr w" "action_inv w" by blast
  have "UpdateOperation b w R \<noteq> Inl check_ThreadedResult_IsValid"
  proof (cases "IsReady (ThreadedResult (Action w))")
    case True
    from UpdateOperation_complete [OF w(2) True, of b R] show ?thesis by auto
  next
    case False
    from UpdateOperation_incomplete [OF w(2) False, of b R] show ?thesis by simp
  qed
  with w make_unlaunched [OF assms] show ?thesis
    by (auto simp: UpdateOperation_def action_inv_def IsValid_def)
qed

theorem ThreadedResult_check_unreachable_after_launch_witness:
  "DO_CHECK example_build \<and> \<not> IsValid (ThreadedResult (Action example_made)) \<and>
   UpdateOperation example_build example_made \<lparr>bRemoveAction = False, LinksToExecute = []\<rparr> =
     Inl check_ThreadedResult_IsValid \<and>
   run example_build example_schedule (launch example_made) = Inr example_running \<and>
   IsValid (ThreadedResult (Action example_running)) \<and>
   UpdateOperation example_build example_running \<lparr>bRemoveAction = False, LinksToExecute = []\<rparr> \<noteq>
     Inl check_ThreadedResult_IsValid"
  using ThreadedResult_check_unreachable_after_launch [OF example_make,
      of example_made "\<lparr>bRemoveAction = False, LinksToExecute = []\<rparr>" example_schedule]
    example_run_running
  by (simp add: example_build_def example_made_def example_action_def IsValid_def)

section \<open>Safe output references\<close>

text \<open>
  Claim C9. As stated the claim fails: with checks compiled in, an output variable outside the
  persistent frame that is not within 16384 bytes above \<open>stackobj\<close> (a heap variable at
  address 8192 here) makes the check of line 70 fail, and no reference is returned.
\<close>

theorem SafeOutputRef_heap_variable_counterexample:
  "\<not> in_persistent_frame \<lparr>PersistentFrame = 4096, PersistentFrameSize = 64, stackobj = 1000000\<rparr> 8192 \<and>
   InternalAwsGameKitThreadedActionSafeOutputRef True
     \<lparr>PersistentFrame = 4096, PersistentFrameSize = 64, stackobj = 1000000\<rparr> 8192 =
     Inl check_NearbyStackAddress"
  by (simp add: InternalAwsGameKitThreadedActionSafeOutputRef_def in_persistent_frame_def
      ExtremelyLargeBPFrameSize_def NearbyStackAddressLimit_def)

text \<open>
  Claim C9, amended. Whenever \<open>InternalAwsGameKitThreadedActionSafeOutputRef\<close> returns, it
  returns the reference it was given if the address lies in the persistent frame, and the
  static junk variable otherwise, and a write through that never changes the caller's
  variable. It returns exactly when no check fires: checks are compiled out, or the frame is
  not null with a size between 0 and \<open>0x10000000\<close> exclusive and the address lies in the
  frame or less than 16384 bytes above \<open>stackobj\<close>. For an action made with such references
  and launched, no schedule changes the memory of an output variable outside the frame.
\<close>

theorem SafeOutputRef_when_no_check_fires:
  "(InternalAwsGameKitThreadedActionSafeOutputRef dc cs a = Inr r \<longrightarrow>
      (in_persistent_frame cs a \<longrightarrow> r = Addr a) \<and>
      (\<not> in_persistent_frame cs a \<longrightarrow>
         r = StaticJunkVarForIgnoredOutput \<and> (\<forall>m v. (m(r := v)) (Addr a) = m (Addr a)))) \<and>
   ((\<exists>r'. InternalAwsGameKitThreadedActionSafeOutputRef dc cs a = Inr r') =
      (\<not> dc \<or>
       (PersistentFrame cs \<noteq> 0 \<and> 0 < sint (PersistentFrameSize cs) \<and>
        sint (PersistentFrameSize cs) < 0x10000000 \<and>
        (in_persistent_frame cs a \<or>
         uint (word_of_int (a - stackobj cs) :: 64 word) < 16384)))) \<and>
   (InternalMakeAwsGameKitThreadedAction b cs mSF mSt mRes info req sfp stp resp dlg = Inr w0 \<and>
    run b sched (launch w0) = Inr w \<longrightarrow>
      (\<not> in_persistent_frame cs sfp \<longrightarrow> SuccessOrFailureMemory w (Addr sfp) = mSF (Addr sfp)) \<and>
      (\<not> in_persistent_frame cs stp \<longrightarrow> StatusMemory w (Addr stp) = mSt (Addr stp)) \<and>
      (\<not> in_persistent_frame cs resp \<longrightarrow> ResultsMemory w (Addr resp) = mRes (Addr resp)))"
proof (intro conjI impI)
  assume "InternalAwsGameKitThreadedActionSafeOutputRef dc cs a = Inr r"
  note c = SafeOutputRef_cases [OF this]
  { assume "in_persistent_frame cs a" with c show "r = Addr a" by simp }
  { assume "\<not> in_persistent_frame cs a"
    with c show "r = StaticJunkVarForIgnoredOutput" 
      and "\<forall>m v. (m(r := v)) (Addr a) = m (Addr a)" by simp_all }
next
  show "(\<exists>r'. InternalAwsGameKitThreadedActionSafeOutputRef dc cs a = Inr r') =
      (\<not> dc \<or>
       (PersistentFrame cs \<noteq> 0 \<and> 0 < sint (PersistentFrameSize cs) \<and>
        sint (PersistentFrameSize cs) < 0x10000000 \<and>
        (in_persistent_frame cs a \<or>
         uint (word_of_int (a - stackobj cs) :: 64 word) < 16384)))"
    by (auto simp: InternalAwsGameKitThreadedActionSafeOutputRef_def in_persistent_frame_def
        ExtremelyLargeBPFrameSize_def NearbyStackAddressLimit_def)
next
  assume a: "InternalMakeAwsGameKitThreadedAction b cs mSF mSt mRes info req sfp stp resp dlg = Inr w0 \<and>
    run b sched (launch w0) = Inr w"
  then have mk: "InternalMakeAwsGameKitThreadedAction b cs mSF mSt mRes info req sfp stp resp dlg = Inr w0"
    and rn: "run b sched (launch w0) = Inr w" by simp_all
  note l = make_launch [OF mk]
  note o = launched_outcome [OF mk rn]
  from l have r1: "InternalAwsGameKitThreadedActionSafeOutputRef (DO_CHECK b) cs sfp =
           Inr (OutSuccessOrFailure (Action (launch w0)))"
    and r2: "InternalAwsGameKitThreadedActionSafeOutputRef (DO_CHECK b) cs stp =
           Inr (OutStatus (Action (launch w0)))"
    and r3: "InternalAwsGameKitThreadedActionSafeOutputRef (DO_CHECK b) cs resp =
           Inr (OutResults (Action (launch w0)))" by simp_all
  note c1 = SafeOutputRef_cases [OF r1] and c2 = SafeOutputRef_cases [OF r2]
    and c3 = SafeOutputRef_cases [OF r3]
  { assume "\<not> in_persistent_frame cs sfp"
    with c1 o l show "SuccessOrFailureMemory w (Addr sfp) = mSF (Addr sfp)"
      unfolding finished_outcome_def pending_outcome_def by (auto split: if_splits) }
  { assume "\<not> in_persistent_frame cs stp"
    with c2 o l show "StatusMemory w (Addr stp) = mSt (Addr stp)"
      unfolding finished_outcome_def pending_outcome_def by (auto split: if_splits) }
  { assume "\<not> in_persistent_frame cs resp"
    with c3 o l show "ResultsMemory w (Addr resp) = mRes (Addr resp)"
      unfolding finished_outcome_def pending_outcome_def by (auto split: if_splits) }
qed

theorem SafeOutputRef_when_no_check_fires_witness:
  "in_persistent_frame example_callsite 4100 \<and>
   InternalAwsGameKitThreadedActionSafeOutputRef True example_callsite 4100 = Inr (Addr 4100) \<and>
   \<not> in_persistent_frame example_callsite 1000100 \<and>
   InternalAwsGameKitThreadedActionSafeOutputRef True example_callsite 1000100 =
     Inr StaticJunkVarForIgnoredOutput \<and>
   (\<exists>r'. InternalAwsGameKitThreadedActionSafeOutputRef True example_callsite 1000100 = Inr r') \<and>
   PersistentFrame example_callsite \<noteq> 0 \<and> 0 < sint (PersistentFrameSize example_callsite) \<and>
   sint (PersistentFrameSize example_callsite) < 0x10000000 \<and>
   uint (word_of_int (1000100 - stackobj example_callsite) :: 64 word) < 16384 \<and>
   run example_build (example_schedule @ [Return, Tick, Tick]) (launch example_made) =
     Inr example_finished \<and>
   ResultsMemory example_finished (Addr 1000100) = 0"
proof -
  have a: "InternalAwsGameKitThreadedActionSafeOutputRef True example_callsite 4100 = Inr (Addr 4100)"
    "InternalAwsGameKitThreadedActionSafeOutputRef True example_callsite 1000100 =
       Inr StaticJunkVarForIgnoredOutput"
    "in_persistent_frame example_callsite 4100" "\<not> in_persistent_frame example_callsite 1000100"
    by (simp_all add: model_defs example_callsite_def in_persistent_frame_def)
  note t = SafeOutputRef_when_no_check_fires [of True example_callsite 1000100
      StaticJunkVarForIgnoredOutput example_build "\<lambda>a. OnSuccess" "\<lambda>a. \<lparr>Status = 0\<rparr>" "\<lambda>a. 0"
      example_info 5 4096 4100 1000100 "Delegate True" example_made
      "example_schedule @ [Return, Tick, Tick]" example_finished]
  from t a(2) have b: "PersistentFrame example_callsite \<noteq> 0 \<and> 0 < sint (PersistentFrameSize example_callsite) \<and>
     sint (PersistentFrameSize example_callsite) < 0x10000000 \<and>
     uint (word_of_int (1000100 - stackobj example_callsite) :: 64 word) < 16384"
    using a(4) by simp
  from t example_make example_run_finished a(4)
  have c: "ResultsMemory example_finished (Addr 1000100) = 0" by simp
  from a b c example_run_finished show ?thesis by simp
qed

section \<open>One final invocation of the delegate\<close>

text \<open>
  Claim C10. With a bound delegate, the calls of the delegate with the final flag true number 1 once
  the manager has polled after the thread returned, and 0 before. When nothing was ever
  enqueued, the only call is the one with the default result and the flag true. In a
  completion poll of any world reached, \<open>DispatchPartialResults\<close> makes the calls of its loop
  and, if the loop did not invoke with the final flag, one more call with the default result
  and the flag true: exactly one final call either way.
\<close>

theorem exactly_one_final_invocation:
  assumes "InternalMakeAwsGameKitThreadedAction b cs mSF mSt mRes info req sfp stp resp (Delegate True) = Inr w0"
    and "run b sched (launch w0) = Inr w"
  shows "length (filter is_final_Execute (Effects w)) = (if polled_after_return sched then 1 else 0) \<and>
         (polled_after_return sched \<and> enqueued sched = [] \<longrightarrow>
            filter is_Execute (Effects w) = [Execute req (ResultType_default b) True]) \<and>
         (\<exists>w'. DispatchPartialResults b (Delegate True) True w = Inr w' \<and>
            Effects w' = Effects w @ snd (DispatchLoop req True (waiting w) False) @
              (if fst (DispatchLoop req True (waiting w) False :: bool \<times> ('req, 'res, 'st) effect list) then []
               else [Execute req (ResultType_default b) True]) \<and>
            length (filter is_final_Execute (Effects w')) =
              length (filter is_final_Execute (Effects w)) + 1)"
proof -
  note l = make_launch [OF assms(1)]
  note o = launched_outcome [OF assms]
  from l have inv0: "action_inv (launch w0)" by simp
  from run_action_inv [OF inv0, of b sched] assms(2)
  have inv: "action_inv w" and st: "static w = static (launch w0)" by auto
  from staticD [OF st] l
  have f: "PartialResultsDelegate (Action w) = Delegate True" "InRequest (Action w) = req" by simp_all
  have 1: "length (filter is_final_Execute (Effects w)) = (if polled_after_return sched then 1 else 0)"
  proof (cases "polled_after_return sched")
    case True
    with o have "finished_outcome b (launch w0) sched w" by simp
    with l True show ?thesis
      unfolding finished_outcome_def
      by (auto simp: final_calls_once filter_map o_def)
  next
    case False
    with o have "pending_outcome (launch w0) sched w" by simp
    with l False show ?thesis
      unfolding pending_outcome_def
      by (auto simp: filter_map o_def)
  qed
  have 2: "polled_after_return sched \<and> enqueued sched = [] \<longrightarrow>
            filter is_Execute (Effects w) = [Execute req (ResultType_default b) True]"
  proof
    assume a: "polled_after_return sched \<and> enqueued sched = []"
    with o have "finished_outcome b (launch w0) sched w" by simp
    with l a show "filter is_Execute (Effects w) = [Execute req (ResultType_default b) True]"
      unfolding finished_outcome_def
      by (auto simp: completion_calls_def)
  qed
  from inv f have "queue_inv w" by (simp add: action_inv_def)
  from Dispatch_complete [OF this, of b] f
  have d: "DispatchPartialResults b (Delegate True) True w =
     Inr ((drained w)\<lparr>Effects := Effects w @ completion_calls b req (waiting w)\<rparr>)"
    by simp
  have c: "completion_calls b req (waiting w) = snd (DispatchLoop req True (waiting w) False) @
              (if fst (DispatchLoop req True (waiting w) False :: bool \<times> ('req, 'res, 'st) effect list) then []
               else [Execute req (ResultType_default b) True])"
    by (simp add: completion_calls_def DispatchLoop_complete)
  have 3: "\<exists>w'. DispatchPartialResults b (Delegate True) True w = Inr w' \<and>
            Effects w' = Effects w @ snd (DispatchLoop req True (waiting w) False) @
              (if fst (DispatchLoop req True (waiting w) False :: bool \<times> ('req, 'res, 'st) effect list) then []
               else [Execute req (ResultType_default b) True]) \<and>
            length (filter is_final_Execute (Effects w')) =
              length (filter is_final_Execute (Effects w)) + 1"
    using d c final_calls_once [of b req "waiting w"] 
    by (simp del: DispatchLoop.simps)
  from 1 2 3 show ?thesis by blast
qed

theorem exactly_one_final_invocation_witness:
  "run example_build example_schedule (launch example_made) = Inr example_running \<and>
   \<not> polled_after_return example_schedule \<and>
   length (filter is_final_Execute (Effects example_running)) = 0 \<and>
   run example_build (example_schedule @ [Return, Tick, Tick]) (launch example_made) =
     Inr example_finished \<and>
   polled_after_return (example_schedule @ [Return, Tick, Tick]) \<and>
   length (filter is_final_Execute (Effects example_finished)) = 1 \<and>
   run example_build [Return, Tick] (launch example_made) = Inr example_finished_at_once \<and>
   polled_after_return [Return, Tick :: (nat, nat) step] \<and>
   enqueued [Return, Tick :: (nat, nat) step] = [] \<and>
   filter is_Execute (Effects example_finished_at_once) = [Execute 5 0 True] \<and>
   run example_build [Return] (launch example_made) = Inr example_returned_at_once \<and>
   \<not> fst (DispatchLoop (5::nat) True (waiting example_returned_at_once) False
            :: bool \<times> (nat, nat, nat) effect list) \<and>
   DispatchPartialResults example_build (Delegate True) True example_returned_at_once =
     Inr (example_returned_at_once\<lparr>Effects := [Execute 5 0 True]\<rparr>)"
proof -
  have s: "\<not> polled_after_return example_schedule"
    "polled_after_return (example_schedule @ [Return, Tick, Tick])"
    "polled_after_return [Return, Tick :: (nat, nat) step]"
    "enqueued [Return, Tick :: (nat, nat) step] = []"
    by (simp_all add: example_schedule_def)
  from exactly_one_final_invocation [OF example_make example_run_running, THEN conjunct1] s
  have 1: "length (filter is_final_Execute (Effects example_running)) = 0" by simp
  from exactly_one_final_invocation [OF example_make example_run_finished, THEN conjunct1] s
  have 2: "length (filter is_final_Execute (Effects example_finished)) = 1" by simp
  from exactly_one_final_invocation [OF example_make example_run_finished_at_once,
      THEN conjunct2, THEN conjunct1] s
  have 3: "filter is_Execute (Effects example_finished_at_once) = [Execute 5 0 True]"
    by (simp add: example_build_def)
  have 4: "\<not> fst (DispatchLoop (5::nat) True (waiting example_returned_at_once) False
            :: bool \<times> (nat, nat, nat) effect list)"
    by (simp add: example_defs waiting_def)
  from exactly_one_final_invocation [OF example_make example_run_returned_at_once,
      THEN conjunct2, THEN conjunct2]
  have 5: "DispatchPartialResults example_build (Delegate True) True example_returned_at_once =
     Inr (example_returned_at_once\<lparr>Effects := [Execute 5 0 True]\<rparr>)"
    by (simp add: example_defs model_defs)
  from s 1 2 3 4 5 example_run_running example_run_finished example_run_finished_at_once
    example_run_returned_at_once
  show ?thesis by blast
qed

section \<open>The native entry points\<close>

text \<open>
  Claim C8. \<open>importFunctions\<close> gives each of the six entry points the spec enumerates (create
  and destroy an instance, check the settings-loaded state, reload the configuration from a
  file path and from contents, set a token's value) the symbol of its own name in the loaded
  library, as a function pointer with the C calling convention and with the signature that
  the header declares for the method of that name. The header declares six handles, with
  six different names, which are the names of these entry points; a wrapper is determined
  by these six handles, \<open>importFunctions\<close> by these six symbols of the library, and the only
  public method without a handle is \<open>ReloadConfig\<close>.
\<close>

theorem importFunctions_six_entry_points:
  "(\<forall>ep. \<exists>sg. map_of public_methods (symbol ep) = Some sg \<and>
      handle ep (importFunctions dll) =
        map_option (\<lambda>a. \<lparr>fp_address = a, fp_signature = sg,
                          fp_convention = C_calling_convention\<rparr>) (dll (symbol ep))) \<and>
   (\<forall>ep p. handle ep (importFunctions dll) = Some p \<longrightarrow>
      fp_convention p = C_calling_convention \<and> dll (symbol ep) = Some (fp_address p)) \<and>
   map handle_name func_handles =
     [''GameKitSessionManagerInstanceCreate'', ''GameKitSessionManagerAreSettingsLoaded'',
      ''GameKitSessionManagerReloadConfigFile'', ''GameKitSessionManagerReloadConfigContents'',
      ''GameKitSessionManagerSetToken'', ''GameKitSessionManagerInstanceRelease''] \<and>
   set spec_entry_points = UNIV \<and>
   symbol ` set spec_entry_points = set (map handle_name func_handles) \<and>
   distinct (map handle_name func_handles) \<and> length func_handles = 6 \<and> inj symbol \<and>
   set (map fst public_methods) - set (map handle_name func_handles) = {''ReloadConfig''} \<and>
   ((\<forall>ep. handle ep x = handle ep y) \<longrightarrow> x = y) \<and>
   ((\<forall>n \<in> set (map handle_name func_handles). dll n = dll' n) \<longrightarrow>
      importFunctions dll = importFunctions dll')"
proof -
  note decls = decl_InstanceCreate_def decl_AreSettingsLoaded_def decl_ReloadConfigFile_def
    decl_ReloadConfigContents_def decl_SetToken_def decl_InstanceRelease_def
    DEFINE_FUNC_HANDLE_def
  have 1: "\<forall>ep. \<exists>sg. map_of public_methods (symbol ep) = Some sg \<and>
      handle ep (importFunctions dll) =
        map_option (\<lambda>a. \<lparr>fp_address = a, fp_signature = sg,
                          fp_convention = C_calling_convention\<rparr>) (dll (symbol ep))"
  proof
    fix ep
    show "\<exists>sg. map_of public_methods (symbol ep) = Some sg \<and>
      handle ep (importFunctions dll) =
        map_option (\<lambda>a. \<lparr>fp_address = a, fp_signature = sg,
                          fp_convention = C_calling_convention\<rparr>) (dll (symbol ep))"
      by (cases ep) (simp_all add: importFunctions_def resolve_def public_methods_def decls)
  qed
  have 2: "\<forall>ep p. handle ep (importFunctions dll) = Some p \<longrightarrow>
      fp_convention p = C_calling_convention \<and> dll (symbol ep) = Some (fp_address p)"
  proof (intro allI impI)
    fix ep p assume a: "handle ep (importFunctions dll) = Some p"
    from 1 obtain sg where "handle ep (importFunctions dll) =
        map_option (\<lambda>a. \<lparr>fp_address = a, fp_signature = sg,
                          fp_convention = C_calling_convention\<rparr>) (dll (symbol ep))"
      by blast
    with a show "fp_convention p = C_calling_convention \<and> dll (symbol ep) = Some (fp_address p)"
      by auto
  qed
  have 3: "set spec_entry_points = UNIV"
  proof -
    have "ep \<in> set spec_entry_points" for ep
      by (cases ep) (simp_all add: spec_entry_points_def)
    then show ?thesis by blast
  qed
  have 4: "inj symbol"
  proof (rule injI)
    fix a b assume "symbol a = symbol b"
    then show "a = b" by (cases a; cases b) simp_all
  qed
  have 5: "(\<forall>ep. handle ep x = handle ep y) \<longrightarrow> x = y"
  proof
    assume a: "\<forall>ep. handle ep x = handle ep y"
    from a [rule_format, of create_instance] a [rule_format, of destroy_instance]
      a [rule_format, of check_settings_loaded]
      a [rule_format, of reload_configuration_from_file_path]
      a [rule_format, of reload_configuration_from_contents] a [rule_format, of set_token_value]
    show "x = y" by simp
  qed
  have 6: "(\<forall>n \<in> set (map handle_name func_handles). dll n = dll' n) \<longrightarrow>
      importFunctions dll = importFunctions dll'"
    by (simp add: func_handles_def importFunctions_def resolve_def decls)
  have 7: "map handle_name func_handles =
     [''GameKitSessionManagerInstanceCreate'', ''GameKitSessionManagerAreSettingsLoaded'',
      ''GameKitSessionManagerReloadConfigFile'', ''GameKitSessionManagerReloadConfigContents'',
      ''GameKitSessionManagerSetToken'', ''GameKitSessionManagerInstanceRelease'']"
    "length func_handles = 6"
    by (simp_all add: func_handles_def decls)
  have 8: "symbol ` set spec_entry_points = set (map handle_name func_handles)"
    "distinct (map handle_name func_handles)"
    unfolding 7(1) by (auto simp: spec_entry_points_def)
  have 9: "set (map fst public_methods) - set (map handle_name func_handles) = {''ReloadConfig''}"
    unfolding 7(1) by (auto simp: public_methods_def)
  from 1 2 3 4 5 6 7 8 9 show ?thesis by blast
qed

theorem importFunctions_six_entry_points_witness:
  "list_all (\<lambda>n. example_library n =
       (example_library(''GameKitSessionManagerCopyAndReloadConfig'' := None)) n)
     (map handle_name func_handles) \<and>
   importFunctions example_library =
     importFunctions (example_library(''GameKitSessionManagerCopyAndReloadConfig'' := None)) \<and>
   handle set_token_value (importFunctions example_library) =
     Some \<lparr>fp_address = 5,
           fp_signature = \<lparr>returns = void_t,
             takes = [GAMEKIT_SESSION_MANAGER_INSTANCE_HANDLE, TokenType, const_char_ptr_t]\<rparr>,
           fp_convention = C_calling_convention\<rparr> \<and>
   handle create_instance (importFunctions example_library) =
     Some \<lparr>fp_address = 1,
           fp_signature = \<lparr>returns = GAMEKIT_SESSION_MANAGER_INSTANCE_HANDLE,
             takes = [const_char_ptr_t, FuncLogCallback]\<rparr>,
           fp_convention = C_calling_convention\<rparr> \<and>
   example_library (symbol set_token_value) = Some 5"
proof -
  have h: "\<forall>n \<in> set (map handle_name func_handles).
      example_library n = (example_library(''GameKitSessionManagerCopyAndReloadConfig'' := None)) n"
    by (simp add: func_handles_def decl_InstanceCreate_def decl_AreSettingsLoaded_def
        decl_ReloadConfigFile_def decl_ReloadConfigContents_def decl_SetToken_def
        decl_InstanceRelease_def DEFINE_FUNC_HANDLE_def)
  note t = importFunctions_six_entry_points [of example_library
      "importFunctions example_library" "importFunctions example_library"
      "example_library(''GameKitSessionManagerCopyAndReloadConfig'' := None)"]
  from t h have 1: "importFunctions example_library =
     importFunctions (example_library(''GameKitSessionManagerCopyAndReloadConfig'' := None))"
    by blast
  from t [THEN conjunct1, rule_format, of set_token_value]
  have 2: "handle set_token_value (importFunctions example_library) =
     Some \<lparr>fp_address = 5,
           fp_signature = \<lparr>returns = void_t,
             takes = [GAMEKIT_SESSION_MANAGER_INSTANCE_HANDLE, TokenType, const_char_ptr_t]\<rparr>,
           fp_convention = C_calling_convention\<rparr>"
    by (auto simp: example_library_def public_methods_def)
  from t [THEN conjunct1, rule_format, of create_instance]
  have 3: "handle create_instance (importFunctions example_library) =
     Some \<lparr>fp_address = 1,
           fp_signature = \<lparr>returns = GAMEKIT_SESSION_MANAGER_INSTANCE_HANDLE,
             takes = [const_char_ptr_t, FuncLogCallback]\<rparr>,
           fp_convention = C_calling_convention\<rparr>"
    by (auto simp: example_library_def public_methods_def)
  from t [THEN conjunct2, THEN conjunct1, rule_format, OF 2]
  have 4: "example_library (symbol set_token_value) = Some 5" by simp
  from h have "list_all (\<lambda>n. example_library n =
       (example_library(''GameKitSessionManagerCopyAndReloadConfig'' := None)) n)
     (map handle_name func_handles)"
    by (simp only: list_all_iff)
  with 1 2 3 4 show ?thesis by blast
qed

end
